theory Spec2Isabelle
  imports Complex_Main "HOL-Library.Sublist"
begin

section \<open>Retry utilities (\<^verbatim>\<open>supabase/functions/_shared/stripe-retry-utils.ts\<close>)\<close>

text \<open>
  Clock readings (\<^verbatim>\<open>Date.now()\<close>, in milliseconds) and the value of \<^verbatim>\<open>Math.random()\<close> are
  finite and modelled as \<^typ>\<open>real\<close>; they are inputs of the functions that read them.
  Counters (attempt numbers, retry and failure counts) are \<^typ>\<open>nat\<close>. The delays and the
  numbers of a retry configuration are \<open>js_number\<close>s, which include \<^verbatim>\<open>Infinity\<close> and \<^verbatim>\<open>NaN\<close>.
\<close>

subsection \<open>Error classification\<close>

datatype ErrorType =
    RATE_LIMIT
  | NETWORK
  | AUTHENTICATION
  | INVALID_REQUEST
  | API_ERROR
  | CARD_ERROR
  | IDEMPOTENCY_ERROR
  | UNKNOWN

text \<open>
  A thrown JavaScript value, as far as the source inspects it:
  a \<^verbatim>\<open>Stripe.errors.StripeError\<close> with its \<^verbatim>\<open>type\<close> field and the integer that
  \<^verbatim>\<open>parseInt(error.headers['x-ratelimit-reset-after'], 10)\<close> yields (\<open>None\<close> when the headers
  or the header are absent or empty, or when the header does not parse);
  a \<^verbatim>\<open>TypeError\<close> with its message; any other \<^verbatim>\<open>Error\<close> with its message; and
  \<^verbatim>\<open>undefined\<close>, the value of \<^verbatim>\<open>lastError\<close> before any attempt has failed.
  \<^verbatim>\<open>error instanceof Stripe.errors.StripeRateLimitError\<close> is read as
  \<^verbatim>\<open>type = 'StripeRateLimitError'\<close>.
\<close>

datatype js_error =
    StripeError string "int option"
  | TypeError string
  | Error string
  | Undefined

fun classifyError :: "js_error \<Rightarrow> ErrorType" where
  "classifyError (StripeError ty hdr) =
     (if ty = ''StripeRateLimitError'' then RATE_LIMIT
      else if ty = ''StripeAuthenticationError'' then AUTHENTICATION
      else if ty = ''StripeInvalidRequestError'' then INVALID_REQUEST
      else if ty = ''StripeAPIError'' then API_ERROR
      else if ty = ''StripeCardError'' then CARD_ERROR
      else if ty = ''StripeIdempotencyError'' then IDEMPOTENCY_ERROR
      else UNKNOWN)"
| "classifyError (TypeError message) =
     (if sublist ''fetch'' message then NETWORK else UNKNOWN)"
| "classifyError (Error message) = UNKNOWN"
| "classifyError Undefined = UNKNOWN"

fun isRetryableError :: "ErrorType \<Rightarrow> bool" where
  "isRetryableError RATE_LIMIT = True"
| "isRetryableError NETWORK = True"
| "isRetryableError API_ERROR = True"
| "isRetryableError AUTHENTICATION = False"
| "isRetryableError INVALID_REQUEST = False"
| "isRetryableError CARD_ERROR = False"
| "isRetryableError IDEMPOTENCY_ERROR = False"
| "isRetryableError UNKNOWN = False"

subsection \<open>JavaScript numbers\<close>

text \<open>
  The numbers that \<^verbatim>\<open>calculateDelay\<close> computes with: a finite value, \<^verbatim>\<open>Infinity\<close>,
  \<^verbatim>\<open>-Infinity\<close> or \<^verbatim>\<open>NaN\<close>. A finite result is kept exact; a result whose magnitude
  reaches \<open>2^1024 - 2^970\<close>, where rounding to the nearest double overflows, becomes
  \<^verbatim>\<open>Infinity\<close> or \<^verbatim>\<open>-Infinity\<close>. Rounding of finite results, underflow and the sign of
  zero are not modelled.
\<close>

datatype js_number = Num real | Infinity | NegInfinity | NaN

definition overflow_threshold :: real where
  "overflow_threshold = 2 ^ 1024 - 2 ^ 970"

definition fl :: "real \<Rightarrow> js_number" where
  "fl x = (if overflow_threshold \<le> x then Infinity
           else if x \<le> - overflow_threshold then NegInfinity
           else Num x)"

text \<open>The operators \<^verbatim>\<open>*\<close>, \<^verbatim>\<open>+\<close>, unary and binary \<^verbatim>\<open>-\<close>, \<^verbatim>\<open><\<close>, \<^verbatim>\<open>>\<close> and \<^verbatim>\<open><=\<close>.\<close>

fun js_times :: "js_number \<Rightarrow> js_number \<Rightarrow> js_number" where
  "js_times NaN b = NaN"
| "js_times a NaN = NaN"
| "js_times (Num x) (Num y) = fl (x * y)"
| "js_times (Num x) Infinity = (if x = 0 then NaN else if 0 < x then Infinity else NegInfinity)"
| "js_times (Num x) NegInfinity = (if x = 0 then NaN else if 0 < x then NegInfinity else Infinity)"
| "js_times Infinity (Num y) = (if y = 0 then NaN else if 0 < y then Infinity else NegInfinity)"
| "js_times NegInfinity (Num y) = (if y = 0 then NaN else if 0 < y then NegInfinity else Infinity)"
| "js_times Infinity Infinity = Infinity"
| "js_times Infinity NegInfinity = NegInfinity"
| "js_times NegInfinity Infinity = NegInfinity"
| "js_times NegInfinity NegInfinity = Infinity"

fun js_plus :: "js_number \<Rightarrow> js_number \<Rightarrow> js_number" where
  "js_plus NaN b = NaN"
| "js_plus a NaN = NaN"
| "js_plus (Num x) (Num y) = fl (x + y)"
| "js_plus Infinity NegInfinity = NaN"
| "js_plus NegInfinity Infinity = NaN"
| "js_plus Infinity b = Infinity"
| "js_plus a Infinity = Infinity"
| "js_plus NegInfinity b = NegInfinity"
| "js_plus a NegInfinity = NegInfinity"

fun js_uminus :: "js_number \<Rightarrow> js_number" where
  "js_uminus (Num x) = Num (- x)"
| "js_uminus Infinity = NegInfinity"
| "js_uminus NegInfinity = Infinity"
| "js_uminus NaN = NaN"

definition js_minus :: "js_number \<Rightarrow> js_number \<Rightarrow> js_number" where
  "js_minus a b = js_plus a (js_uminus b)"

fun js_less :: "js_number \<Rightarrow> js_number \<Rightarrow> bool" where
  "js_less NaN b = False"
| "js_less a NaN = False"
| "js_less (Num x) (Num y) = (x < y)"
| "js_less a NegInfinity = False"
| "js_less Infinity b = False"
| "js_less NegInfinity b = True"
| "js_less a Infinity = True"

definition js_greater :: "js_number \<Rightarrow> js_number \<Rightarrow> bool" where
  "js_greater a b = js_less b a"

definition js_less_eq :: "js_number \<Rightarrow> js_number \<Rightarrow> bool" where
  "js_less_eq a b = (a \<noteq> NaN \<and> b \<noteq> NaN \<and> (js_less a b \<or> a = b))"

text \<open>
  The truth value of a number in a condition, as in \<^verbatim>\<open>if (rateLimitResetTime)\<close>: false
  for \<open>0\<close> and \<^verbatim>\<open>NaN\<close>.
\<close>

fun ToBoolean :: "js_number \<Rightarrow> bool" where
  "ToBoolean (Num x) = (x \<noteq> 0)"
| "ToBoolean NaN = False"
| "ToBoolean Infinity = True"
| "ToBoolean NegInfinity = True"

text \<open>\<^verbatim>\<open>Math.min(a, b)\<close>: \<^verbatim>\<open>NaN\<close> when either argument is \<^verbatim>\<open>NaN\<close>.\<close>

definition Math_min :: "js_number \<Rightarrow> js_number \<Rightarrow> js_number" where
  "Math_min a b = (if a = NaN \<or> b = NaN then NaN else if js_less b a then b else a)"

text \<open>
  \<^verbatim>\<open>Math.pow(b, e)\<close> for an integer exponent \<open>e\<close>: 1 for \<open>e = 0\<close> whatever the base is,
  \<^verbatim>\<open>NaN\<close> for a \<^verbatim>\<open>NaN\<close> base otherwise, and \<^verbatim>\<open>Infinity\<close> when the power overflows.
\<close>

definition Math_pow :: "js_number \<Rightarrow> int \<Rightarrow> js_number" where
  "Math_pow b e =
     (if e = 0 then Num 1
      else case b of
        NaN \<Rightarrow> NaN
      | Infinity \<Rightarrow> (if 0 < e then Infinity else Num 0)
      | NegInfinity \<Rightarrow> (if 0 < e then (if odd e then NegInfinity else Infinity) else Num 0)
      | Num x \<Rightarrow>
          (if x = 0 then (if 0 < e then Num 0 else Infinity)
           else fl (if 0 < e then x ^ nat e else 1 / x ^ nat (- e))))"

subsection \<open>Retry configuration and backoff\<close>

record RetryConfig =
  maxRetries :: nat
  baseDelay :: js_number
  maxDelay :: js_number
  backoffMultiplier :: js_number
  jitter :: bool

definition DEFAULT_RETRY_CONFIG :: RetryConfig where
  "DEFAULT_RETRY_CONFIG =
     \<lparr>maxRetries = 3, baseDelay = Num 1000, maxDelay = Num 30000, backoffMultiplier = Num 2,
      jitter = True\<rparr>"

definition RATE_LIMIT_RETRY_CONFIG :: RetryConfig where
  "RATE_LIMIT_RETRY_CONFIG =
     \<lparr>maxRetries = 5, baseDelay = Num 2000, maxDelay = Num 60000, backoffMultiplier = Num 2,
      jitter = True\<rparr>"

text \<open>
  \<^verbatim>\<open>calculateDelay(attempt, config, rateLimitResetTime?)\<close>. \<open>now\<close> is the reading of
  \<^verbatim>\<open>Date.now()\<close> and \<open>rnd\<close> the value of \<^verbatim>\<open>Math.random()\<close>, both finite. The guard
  \<^verbatim>\<open>if (rateLimitResetTime)\<close> is false for \<^verbatim>\<open>undefined\<close> (\<open>None\<close>), for \<open>0\<close> and for
  \<^verbatim>\<open>NaN\<close>.
\<close>

definition calculateDelay ::
  "int \<Rightarrow> RetryConfig \<Rightarrow> js_number option \<Rightarrow> real \<Rightarrow> real \<Rightarrow> js_number" where
  "calculateDelay attempt config rateLimitResetTime now rnd =
     (let exponential =
            (let delay = js_times (baseDelay config)
                           (Math_pow (backoffMultiplier config) (attempt - 1));
                 delay' = (if jitter config
                           then js_times delay (js_plus (Num 0.5) (js_times (Num rnd) (Num 0.5)))
                           else delay)
             in Math_min delay' (maxDelay config))
      in case rateLimitResetTime of
           None \<Rightarrow> exponential
         | Some r \<Rightarrow>
             (if ToBoolean r
              then (let resetDelay = js_minus (js_times r (Num 1000)) (Num now)
                    in if js_greater resetDelay (Num 0)
                       then Math_min (js_plus resetDelay (Num 1000)) (maxDelay config)
                       else exponential)
              else exponential))"

subsection \<open>The retry loop\<close>

text \<open>
  The result of one run of \<^verbatim>\<open>withRetry\<close>: what it returns (\<open>Inr\<close>) or throws
  (\<open>Inl\<close>), the number of the last attempt made, which is the number of calls of
  \<^verbatim>\<open>operation()\<close> since attempts are numbered from 1, and the delays passed to
  \<^verbatim>\<open>sleep\<close> in order. Console output is not modelled.
\<close>

record 'a retry_run =
  outcome :: "js_error + 'a"
  attempts :: nat
  sleeps :: "js_number list"

text \<open>
  The delay computation in the body of the loop of \<^verbatim>\<open>withRetry\<close> (``Calculate delay for
  next attempt''): the reset hint is read from a rate-limit error's headers, the
  configuration is \<^verbatim>\<open>RATE_LIMIT_RETRY_CONFIG\<close> for a rate-limit error and the caller's
  otherwise.
\<close>

definition rateLimitResetTime_of :: "js_error \<Rightarrow> js_number option" where
  "rateLimitResetTime_of error =
     (case error of
        StripeError ty hdr \<Rightarrow>
          (if ty = ''StripeRateLimitError'' then map_option (\<lambda>h. Num (real_of_int h)) hdr
           else None)
      | _ \<Rightarrow> None)"

definition retry_delay ::
  "RetryConfig \<Rightarrow> nat \<Rightarrow> js_error \<Rightarrow> real \<Rightarrow> real \<Rightarrow> js_number" where
  "retry_delay config attempt error now rnd =
     (let errorType = classifyError error;
          rateLimitResetTime = rateLimitResetTime_of error;
          retryConfig = (if errorType = RATE_LIMIT then RATE_LIMIT_RETRY_CONFIG else config)
      in calculateDelay (int attempt) retryConfig rateLimitResetTime now rnd)"

text \<open>
  The \<^verbatim>\<open>for\<close> loop of \<^verbatim>\<open>withRetry\<close>. \<open>operation k\<close> is what the \<open>k\<close>-th call of
  \<^verbatim>\<open>operation()\<close> returns or throws; \<open>now k\<close> and \<open>rnd k\<close> are the readings of
  \<^verbatim>\<open>Date.now()\<close> and \<^verbatim>\<open>Math.random()\<close> during attempt \<open>k\<close>. A \<^verbatim>\<open>break\<close> and the
  exit of the loop both reach \<^verbatim>\<open>throw lastError\<close>.
\<close>

function withRetry_loop ::
  "(nat \<Rightarrow> js_error + 'a) \<Rightarrow> RetryConfig \<Rightarrow> (nat \<Rightarrow> real) \<Rightarrow> (nat \<Rightarrow> real)
     \<Rightarrow> nat \<Rightarrow> js_error \<Rightarrow> js_number list \<Rightarrow> 'a retry_run" where
  "withRetry_loop operation config now rnd attempt lastError slept =
     (if attempt \<le> maxRetries config + 1 then
        (case operation attempt of
           Inr v \<Rightarrow> \<lparr>outcome = Inr v, attempts = attempt, sleeps = slept\<rparr>
         | Inl error \<Rightarrow>
             (let errorType = classifyError error in
              if attempt > maxRetries config \<or> \<not> isRetryableError errorType
              then \<lparr>outcome = Inl error, attempts = attempt, sleeps = slept\<rparr>
              else
                (let delay = retry_delay config attempt error (now attempt) (rnd attempt)
                 in withRetry_loop operation config now rnd (attempt + 1) error
                      (slept @ [delay]))))
      else \<lparr>outcome = Inl lastError, attempts = attempt - 1, sleeps = slept\<rparr>)"
  by pat_completeness auto
termination
  by (relation "measure (\<lambda>(operation, config, now, rnd, attempt, lastError, slept).
        maxRetries config + 2 - attempt)") auto

definition withRetry ::
  "(nat \<Rightarrow> js_error + 'a) \<Rightarrow> RetryConfig \<Rightarrow> (nat \<Rightarrow> real) \<Rightarrow> (nat \<Rightarrow> real) \<Rightarrow> 'a retry_run" where
  "withRetry operation config now rnd = withRetry_loop operation config now rnd 1 Undefined []"

subsection \<open>The circuit breaker\<close>

datatype cb_state = Closed | Open | HalfOpen

record CircuitBreaker =
  failures :: nat
  lastFailureTime :: real
  state :: cb_state
  failureThreshold :: nat
  resetTimeout :: real

definition new_CircuitBreaker :: "nat \<Rightarrow> real \<Rightarrow> CircuitBreaker" where
  "new_CircuitBreaker threshold timeout =
     \<lparr>failures = 0, lastFailureTime = 0, state = Closed,
      failureThreshold = threshold, resetTimeout = timeout\<rparr>"

definition onSuccess :: "CircuitBreaker \<Rightarrow> CircuitBreaker" where
  "onSuccess cb = cb\<lparr>failures := 0, state := Closed\<rparr>"

definition onFailure :: "CircuitBreaker \<Rightarrow> real \<Rightarrow> CircuitBreaker" where
  "onFailure cb now =
     (let cb1 = cb\<lparr>failures := failures cb + 1, lastFailureTime := now\<rparr>
      in if failures cb1 \<ge> failureThreshold cb1 then cb1\<lparr>state := Open\<rparr> else cb1)"

definition circuit_open_error :: js_error where
  "circuit_open_error = Error ''Circuit breaker is open - service temporarily unavailable''"

text \<open>
  \<^verbatim>\<open>execute(operation)\<close> suspends at \<^verbatim>\<open>await operation()\<close>, and the breaker is a module-level
  object that the requests of one isolate share, so other calls of \<^verbatim>\<open>execute\<close> can run
  between the two halves of a call. The first half, up to the call of \<^verbatim>\<open>operation()\<close>, is
  \<open>execute_enter\<close>: \<open>now\<close> is the reading of \<^verbatim>\<open>Date.now()\<close> at the check of the open state, and
  the result is the error thrown (\<open>Some\<close>, and \<^verbatim>\<open>operation()\<close> is not called) or \<open>None\<close> (and
  \<^verbatim>\<open>operation()\<close> is called), with the breaker afterwards. The state \<^verbatim>\<open>'half-open'\<close> is
  assigned here and tested nowhere in the source. The second half, once the promise of
  \<^verbatim>\<open>operation()\<close> has settled, is \<open>execute_settle\<close>: \<open>operation\<close> is what \<^verbatim>\<open>operation()\<close>
  returned or threw and \<open>failedAt\<close> the reading of \<^verbatim>\<open>Date.now()\<close> in \<^verbatim>\<open>onFailure\<close>.
\<close>

definition execute_enter :: "CircuitBreaker \<Rightarrow> real \<Rightarrow> js_error option \<times> CircuitBreaker" where
  "execute_enter cb now =
     (if state cb = Open
      then (if now - lastFailureTime cb > resetTimeout cb
            then (None, cb\<lparr>state := HalfOpen\<rparr>)
            else (Some circuit_open_error, cb))
      else (None, cb))"

definition execute_settle ::
  "CircuitBreaker \<Rightarrow> js_error + 'a \<Rightarrow> real \<Rightarrow> (js_error + 'a) \<times> CircuitBreaker" where
  "execute_settle cb operation failedAt =
     (case operation of
        Inr v \<Rightarrow> (Inr v, onSuccess cb)
      | Inl error \<Rightarrow> (Inl error, onFailure cb failedAt))"

text \<open>
  A call of \<^verbatim>\<open>execute\<close> that no other call on the breaker overlaps: both halves, one
  after the other. The result is what \<^verbatim>\<open>execute\<close> returns or throws, the breaker
  afterwards, and whether \<^verbatim>\<open>operation()\<close> was called.
\<close>

definition execute ::
  "CircuitBreaker \<Rightarrow> real \<Rightarrow> js_error + 'a \<Rightarrow> real \<Rightarrow> (js_error + 'a) \<times> CircuitBreaker \<times> bool" where
  "execute cb now operation failedAt =
     (case execute_enter cb now of
        (Some error, cb') \<Rightarrow> (Inl error, cb', False)
      | (None, cb1) \<Rightarrow>
          (case execute_settle cb1 operation failedAt of (res, cb2) \<Rightarrow> (res, cb2, True)))"

text \<open>
  Calls that may overlap, as the sequence of their halves in the order in which they
  run on the shared breaker: \<open>Enter now\<close> is the first half of a call, \<open>Settle operation
  failedAt\<close> the second half of a call whose operation has settled. \<open>execute_steps\<close> gives,
  for every \<open>Enter\<close> in order, whether \<^verbatim>\<open>operation()\<close> was called, and the breaker at the
  end. \<open>is_success\<close> and \<open>is_failure\<close> tell the second halves of successful and of failed
  operations.
\<close>

datatype 'a cb_step = Enter real | Settle "js_error + 'a" real

fun execute_steps :: "CircuitBreaker \<Rightarrow> 'a cb_step list \<Rightarrow> bool list \<times> CircuitBreaker" where
  "execute_steps cb [] = ([], cb)"
| "execute_steps cb (Enter now # ss) =
     (case execute_enter cb now of
        (thrown, cb') \<Rightarrow>
          (case execute_steps cb' ss of (called, cb'') \<Rightarrow> ((thrown = None) # called, cb'')))"
| "execute_steps cb (Settle operation failedAt # ss) =
     execute_steps (snd (execute_settle cb operation failedAt)) ss"




subsection \<open>The retry executor as the specification words it\<close>

text \<open>
  Not a translation of the source: the loop of the specification's Retry Executor,
  which runs every attempt through the circuit breaker
  (``Loop for attempt = 1..profile.maxAttempts+1: run operation through the Circuit
  Breaker; on success return immediately; on failure, classify the error, and if
  attempt > maxAttempts or the class is non-retryable, raise the terminal failure;
  otherwise compute the delay, suspend, then continue''). It is compared with
  \<open>withRetry\<close> below. Its \<open>attempts\<close> field counts the calls of \<^verbatim>\<open>operation()\<close> that the
  breaker let through.
\<close>

function spec_execute_loop ::
  "(nat \<Rightarrow> js_error + 'a) \<Rightarrow> RetryConfig \<Rightarrow> (nat \<Rightarrow> real) \<Rightarrow> (nat \<Rightarrow> real)
     \<Rightarrow> nat \<Rightarrow> CircuitBreaker \<Rightarrow> nat \<Rightarrow> js_number list
     \<Rightarrow> 'a retry_run \<times> CircuitBreaker" where
  "spec_execute_loop operation profile now rnd attempt cb calls slept =
     (case execute cb (now attempt) (operation attempt) (now attempt) of
        (res, cb', invoked) \<Rightarrow>
          (let calls' = (if invoked then calls + 1 else calls) in
           case res of
             Inr v \<Rightarrow> (\<lparr>outcome = Inr v, attempts = calls', sleeps = slept\<rparr>, cb')
           | Inl error \<Rightarrow>
               (if attempt > maxRetries profile \<or> \<not> isRetryableError (classifyError error)
                then (\<lparr>outcome = Inl error, attempts = calls', sleeps = slept\<rparr>, cb')
                else
                  (let delay = retry_delay profile attempt error (now attempt) (rnd attempt)
                   in spec_execute_loop operation profile now rnd (attempt + 1) cb' calls'
                        (slept @ [delay])))))"
  by pat_completeness auto
termination
  by (relation "measure (\<lambda>(operation, profile, now, rnd, attempt, cb, calls, slept).
        maxRetries profile + 1 - attempt)") auto

definition spec_execute ::
  "(nat \<Rightarrow> js_error + 'a) \<Rightarrow> RetryConfig \<Rightarrow> (nat \<Rightarrow> real) \<Rightarrow> (nat \<Rightarrow> real)
     \<Rightarrow> CircuitBreaker \<Rightarrow> 'a retry_run \<times> CircuitBreaker" where
  "spec_execute operation profile now rnd cb =
     spec_execute_loop operation profile now rnd 1 cb 0 []"

subsection \<open>Breaker states\<close>


section \<open>Admin notifications (\<^verbatim>\<open>_shared/admin-notifications.ts\<close>)\<close>

datatype NotificationSeverity = LOW | MEDIUM | HIGH | CRITICAL

datatype NotificationChannel = EMAIL | WEBHOOK | DATABASE | CONSOLE

text \<open>
  \<^verbatim>\<open>NotificationData\<close>, with the fields that decide what \<^verbatim>\<open>sendAdminNotification\<close> does;
  the others (message, error code, identifiers, amount, metadata, timestamp) are only
  copied into the channels' payloads. \<^verbatim>\<open>errorType\<close> is optional.
\<close>

record NotificationData =
  data_severity :: NotificationSeverity
  data_title :: string
  data_operation :: string
  data_errorType :: "string option"

record AdminNotificationConfig =
  channels :: "NotificationChannel list"
  emailRecipients :: "string list option"
  webhookUrl :: "string option"
  enabledSeverities :: "NotificationSeverity list"
  rateLimitMinutes :: "real option"

definition DEFAULT_CONFIG :: AdminNotificationConfig where
  "DEFAULT_CONFIG =
     \<lparr>channels = [DATABASE, CONSOLE], emailRecipients = None, webhookUrl = None,
      enabledSeverities = [HIGH, CRITICAL], rateLimitMinutes = Some 5\<rparr>"

fun severity_string :: "NotificationSeverity \<Rightarrow> string" where
  "severity_string LOW = ''low''"
| "severity_string MEDIUM = ''medium''"
| "severity_string HIGH = ''high''"
| "severity_string CRITICAL = ''critical''"

text \<open>
  The key both \<^verbatim>\<open>isRateLimited\<close> and \<^verbatim>\<open>updateRateLimitCache\<close> build with the template
  \<^verbatim>\<open>`${data.operation}-${data.errorType}-${data.severity}`\<close>; an absent \<^verbatim>\<open>errorType\<close>
  prints as \<^verbatim>\<open>undefined\<close>.
\<close>

definition cache_key :: "NotificationData \<Rightarrow> string" where
  "cache_key data =
     data_operation data @ ''-''
       @ (case data_errorType data of None \<Rightarrow> ''undefined'' | Some t \<Rightarrow> t) @ ''-''
       @ severity_string (data_severity data)"

text \<open>
  \<^verbatim>\<open>notificationCache\<close>, a JavaScript \<^verbatim>\<open>Map\<close> from keys to clock readings: an association
  list in insertion order with one entry for a key. \<^verbatim>\<open>get\<close> is \<^const>\<open>map_of\<close>,
  \<^verbatim>\<open>size\<close> is \<^const>\<open>length\<close>.
\<close>

type_synonym notificationCache = "(string \<times> real) list"

fun Map_set :: "string \<Rightarrow> real \<Rightarrow> notificationCache \<Rightarrow> notificationCache" where
  "Map_set k v [] = [(k, v)]"
| "Map_set k v (p # ps) = (if fst p = k then (k, v) # ps else p # Map_set k v ps)"

text \<open>\<^verbatim>\<open>!lastSent\<close> holds for a missing entry and for the reading 0.\<close>

definition isRateLimited :: "notificationCache \<Rightarrow> NotificationData \<Rightarrow> real \<Rightarrow> real \<Rightarrow> bool" where
  "isRateLimited cache data minutes now =
     (case map_of cache (cache_key data) of
        None \<Rightarrow> False
      | Some lastSent \<Rightarrow>
          (if lastSent = 0 then False
           else (let timeDiff = now - lastSent;
                     rateLimitMs = minutes * 60 * 1000
                 in timeDiff < rateLimitMs)))"

text \<open>
  \<^verbatim>\<open>updateRateLimitCache\<close> reads the clock twice: \<open>now\<close> for the entry it sets and
  \<open>now'\<close> for the cutoff of the clean-up, which deletes every entry older than 24 hours
  once the cache holds more than 1000 entries.
\<close>

definition updateRateLimitCache ::
  "notificationCache \<Rightarrow> NotificationData \<Rightarrow> real \<Rightarrow> real \<Rightarrow> notificationCache" where
  "updateRateLimitCache cache data now now' =
     (let cache1 = Map_set (cache_key data) now cache
      in if length cache1 > 1000
         then (let cutoff = now' - (24 * 60 * 60 * 1000)
               in filter (\<lambda>(key, timestamp). \<not> timestamp < cutoff) cache1)
         else cache1)"

text \<open>
  What a channel function does with a notification: an e-mail to the recipients (nothing
  without recipients), a POST to the webhook URL (nothing without a URL), an insert into
  the notifications table, a console log. Each catches its own failures.
\<close>

datatype delivery =
    EmailSent "string list"
  | WebhookPosted string
  | DatabaseInserted
  | ConsoleLogged

fun channel_delivery :: "AdminNotificationConfig \<Rightarrow> NotificationChannel \<Rightarrow> delivery option" where
  "channel_delivery config EMAIL =
     (case emailRecipients config of
        None \<Rightarrow> None
      | Some recipients \<Rightarrow> if recipients = [] then None else Some (EmailSent recipients))"
| "channel_delivery config WEBHOOK =
     (case webhookUrl config of
        None \<Rightarrow> None
      | Some url \<Rightarrow> if url = [] then None else Some (WebhookPosted url))"
| "channel_delivery config DATABASE = Some DatabaseInserted"
| "channel_delivery config CONSOLE = Some ConsoleLogged"

datatype send_outcome =
    Dropped
  | RateLimited
  | Delivered "delivery list"

text \<open>
  \<^verbatim>\<open>sendAdminNotification(data, config)\<close> suspends at \<^verbatim>\<open>await Promise.allSettled(promises)\<close>
  between the rate-limit check and the update of the cache, which is a module-level map,
  so other calls can run between the two halves of a call. The first half,
  \<open>sendAdminNotification_begin\<close>, reads the cache with the clock reading \<open>t_check\<close> in
  \<^verbatim>\<open>isRateLimited\<close> and says whether the notification is dropped for its severity,
  suppressed by the rate limit (logged only), or passed to the channel functions. The
  second half, \<open>sendAdminNotification_end\<close>, runs only after the notification was passed to
  the channels and they have settled: \<^verbatim>\<open>updateRateLimitCache\<close> with its clock readings
  \<open>t_set\<close> and \<open>t_cutoff\<close>. \<^verbatim>\<open>config.rateLimitMinutes\<close> is falsy when absent or 0.
\<close>

definition rate_limiting :: "AdminNotificationConfig \<Rightarrow> bool" where
  "rate_limiting config = (case rateLimitMinutes config of None \<Rightarrow> False | Some m \<Rightarrow> m \<noteq> 0)"

definition sendAdminNotification_begin ::
  "notificationCache \<Rightarrow> NotificationData \<Rightarrow> AdminNotificationConfig \<Rightarrow> real \<Rightarrow> send_outcome" where
  "sendAdminNotification_begin cache data config t_check =
     (if data_severity data \<notin> set (enabledSeverities config) then Dropped
      else if rate_limiting config
              \<and> isRateLimited cache data (the (rateLimitMinutes config)) t_check
      then RateLimited
      else Delivered (List.map_filter (channel_delivery config) (channels config)))"

definition sendAdminNotification_end ::
  "notificationCache \<Rightarrow> NotificationData \<Rightarrow> AdminNotificationConfig \<Rightarrow> real \<Rightarrow> real
     \<Rightarrow> notificationCache" where
  "sendAdminNotification_end cache data config t_set t_cutoff =
     (if rate_limiting config then updateRateLimitCache cache data t_set t_cutoff else cache)"

text \<open>
  A call of \<^verbatim>\<open>sendAdminNotification\<close> that no other call overlaps: both halves on the
  same cache. The result is the outcome and the cache afterwards.
\<close>

definition sendAdminNotification ::
  "notificationCache \<Rightarrow> NotificationData \<Rightarrow> AdminNotificationConfig \<Rightarrow> real \<Rightarrow> real \<Rightarrow> real
     \<Rightarrow> send_outcome \<times> notificationCache" where
  "sendAdminNotification cache data config t_check t_set t_cutoff =
     (case sendAdminNotification_begin cache data config t_check of
        Delivered ds \<Rightarrow>
          (Delivered ds, sendAdminNotification_end cache data config t_set t_cutoff)
      | out \<Rightarrow> (out, cache))"







text \<open>
  A sequence of calls of \<^verbatim>\<open>sendAdminNotification\<close> under one configuration, made one
  after the other on the module's cache; and the clock of such a sequence: every reading
  is positive (milliseconds since 1970) and no reading is less than an earlier one.
\<close>

record notification_call =
  n_data :: NotificationData
  n_check :: real
  n_set :: real
  n_cutoff :: real

fun sendAll ::
  "AdminNotificationConfig \<Rightarrow> notificationCache \<Rightarrow> notification_call list
     \<Rightarrow> send_outcome list \<times> notificationCache" where
  "sendAll config cache [] = ([], cache)"
| "sendAll config cache (c # cs) =
     (case sendAdminNotification cache (n_data c) config (n_check c) (n_set c) (n_cutoff c) of
        (out, cache') \<Rightarrow>
          (case sendAll config cache' cs of (outs, cache'') \<Rightarrow> (out # outs, cache'')))"

fun clock_from :: "real \<Rightarrow> notification_call list \<Rightarrow> bool" where
  "clock_from t [] = True"
| "clock_from t (c # cs) =
     (0 < n_check c \<and> t \<le> n_check c \<and> n_check c \<le> n_set c \<and> n_set c \<le> n_cutoff c
      \<and> clock_from (n_cutoff c) cs)"

fun is_Delivered :: "send_outcome \<Rightarrow> bool" where
  "is_Delivered (Delivered ds) = True"
| "is_Delivered out = False"


text \<open>
  A sequence of calls for the rate limit with a window of more than 24 hours: 1000
  notifications with distinct keys, then one for the key of operation \<open>k\<close>, all at clock
  reading 1; a notification for the key of operation \<open>z\<close> 24 hours and 1 ms later; and
  one more for \<open>k\<close> after another millisecond.
\<close>

definition flood_call :: "string \<Rightarrow> real \<Rightarrow> notification_call" where
  "flood_call opn t =
     \<lparr>n_data = \<lparr>data_severity = HIGH, data_title = ''Alert'', data_operation = opn,
                data_errorType = Some ''e''\<rparr>,
      n_check = t, n_set = t, n_cutoff = t\<rparr>"

definition flood :: "notification_call list" where
  "flood =
     map (\<lambda>i. flood_call (replicate i CHR ''x'') 1) [0..<1000]
       @ [flood_call ''k'' 1, flood_call ''z'' 86400002, flood_call ''k'' 86400003]"

text \<open>The cache after the first \<open>n\<close> calls of \<open>flood\<close>, and a configuration with a window of 25 hours.\<close>

definition flood_cache :: "nat \<Rightarrow> notificationCache" where
  "flood_cache n =
     map (\<lambda>i. (cache_key (n_data (flood_call (replicate i CHR ''x'') 1)), 1)) [0..<n]"

definition long_window_config :: AdminNotificationConfig where
  "long_window_config = DEFAULT_CONFIG\<lparr>rateLimitMinutes := Some 1500\<rparr>"

section \<open>The webhook endpoint (\<^verbatim>\<open>stripe-webhooks\<close>)\<close>

subsection \<open>Events, the database, notifications\<close>

text \<open>
  The object of an event (\<^verbatim>\<open>event.data.object\<close>) as far as the handlers branch on it:
  its id, its customer (the empty string when missing, which is falsy), the
  subscription of a checkout session and \<^verbatim>\<open>metadata.supabase_user_id\<close>. An event whose
  object is \<^verbatim>\<open>null\<close> has \<open>event_object = None\<close>: reading a property of it throws a
  \<^verbatim>\<open>TypeError\<close>.
\<close>

record event_object =
  obj_id :: string
  obj_customer :: string
  obj_subscription :: "string option"
  obj_supabase_user_id :: "string option"

record stripe_event =
  event_id :: string
  event_type :: string
  event_object :: "event_object option"

definition null_object_error :: js_error where
  "null_object_error = TypeError ''Cannot read properties of null''"

text \<open>
  What the Supabase calls of one delivery do: each either throws (\<open>Inl\<close>) or returns.
  A query that the source destructures returns its \<^verbatim>\<open>{data, error}\<close> pair, \<open>data\<close> being
  the row's id (or \<^verbatim>\<open>user_id\<close> for the look-up by customer) when there is a row.
\<close>

record db_env =
  select_user_id :: "js_error + string option"
  upsert_customer :: "js_error + (js_error option \<times> string option)"
  find_customer :: "js_error + (js_error option \<times> string option)"
  upsert_subscription :: "js_error + unit"
  upsert_payment :: "js_error + unit"
  upsert_invoice :: "js_error + unit"

text \<open>
  The notification helpers end in \<^verbatim>\<open>sendAdminNotification\<close>, whose body is one
  \<^verbatim>\<open>try\<close>/\<^verbatim>\<open>catch\<close> that swallows every error: a call of a helper never throws. Calls are
  recorded with the event id they are made for.
\<close>

datatype notification =
    NotifySubscriptionFailure string
  | NotifyPaymentFailure string
  | NotifyWebhookFailure string
  | NotifyCriticalError string

text \<open>What a handler does: the value it returns or the error it throws, and its notifications.\<close>

type_synonym handler_result = "(js_error + bool) \<times> notification list"

subsection \<open>The handlers\<close>

definition handleCheckoutSessionCompleted :: "stripe_event \<Rightarrow> db_env \<Rightarrow> handler_result" where
  "handleCheckoutSessionCompleted event db =
     (case event_object event of
        None \<Rightarrow> (Inl null_object_error, [])
      | Some session \<Rightarrow>
          (let customerId = obj_customer session;
               subscriptionId = obj_subscription session;
               supabaseUserId = obj_supabase_user_id session;
               failed = (Inr False, [NotifySubscriptionFailure (event_id event)])
           in if customerId = [] then (Inr False, [])
              else
                (case (if supabaseUserId \<noteq> None \<and> supabaseUserId \<noteq> Some []
                       then Inr supabaseUserId else select_user_id db) of
                   Inl error \<Rightarrow> failed
                 | Inr userId \<Rightarrow>
                     if userId = None \<or> userId = Some [] then (Inr False, [])
                     else
                       (case upsert_customer db of
                          Inl error \<Rightarrow> failed
                        | Inr (Some customerError, customerRow) \<Rightarrow> failed
                        | Inr (None, customerRow) \<Rightarrow>
                            if subscriptionId \<noteq> None \<and> subscriptionId \<noteq> Some []
                            then (if customerRow = None then failed
                                  else (case upsert_subscription db of
                                          Inl error \<Rightarrow> failed
                                        | Inr u \<Rightarrow> (Inr True, [])))
                            else (Inr True, [])))))"

definition handlePaymentIntentSucceeded :: "stripe_event \<Rightarrow> db_env \<Rightarrow> handler_result" where
  "handlePaymentIntentSucceeded event db =
     (case event_object event of
        None \<Rightarrow> (Inl null_object_error, [])
      | Some paymentIntent \<Rightarrow>
          (case upsert_payment db of
             Inl error \<Rightarrow> (Inr False, [NotifyPaymentFailure (event_id event)])
           | Inr u \<Rightarrow> (Inr True, [])))"

definition handlePaymentIntentFailed :: "stripe_event \<Rightarrow> db_env \<Rightarrow> handler_result" where
  "handlePaymentIntentFailed event db =
     (case event_object event of
        None \<Rightarrow> (Inl null_object_error, [])
      | Some paymentIntent \<Rightarrow> (Inr True, [NotifyPaymentFailure (event_id event)]))"

definition handleSubscriptionUpdated :: "stripe_event \<Rightarrow> db_env \<Rightarrow> handler_result" where
  "handleSubscriptionUpdated event db =
     (case event_object event of
        None \<Rightarrow> (Inl null_object_error, [])
      | Some subscription \<Rightarrow>
          (let failed = (Inr False, [NotifySubscriptionFailure (event_id event)])
           in case find_customer db of
                Inl error \<Rightarrow> failed
              | Inr (Some customerError, customerRow) \<Rightarrow> failed
              | Inr (None, customerRow) \<Rightarrow>
                  if customerRow = None then failed
                  else (case upsert_subscription db of
                          Inl error \<Rightarrow> failed
                        | Inr u \<Rightarrow> (Inr True, []))))"

definition handleSubscriptionDeleted :: "stripe_event \<Rightarrow> db_env \<Rightarrow> handler_result" where
  "handleSubscriptionDeleted event db =
     (case event_object event of
        None \<Rightarrow> (Inl null_object_error, [])
      | Some subscription \<Rightarrow>
          (let failed = (Inr False, [NotifySubscriptionFailure (event_id event)])
           in case find_customer db of
                Inl error \<Rightarrow> failed
              | Inr (Some customerError, customerRow) \<Rightarrow> failed
              | Inr (None, customerRow) \<Rightarrow>
                  if customerRow = None then failed
                  else (case upsert_subscription db of
                          Inl error \<Rightarrow> failed
                        | Inr u \<Rightarrow> (Inr True, []))))"

definition handleInvoicePaymentSucceeded :: "stripe_event \<Rightarrow> db_env \<Rightarrow> handler_result" where
  "handleInvoicePaymentSucceeded event db =
     (case event_object event of
        None \<Rightarrow> (Inl null_object_error, [])
      | Some invoice \<Rightarrow>
          (case upsert_invoice db of
             Inl error \<Rightarrow> (Inr False, [NotifyPaymentFailure (event_id event)])
           | Inr u \<Rightarrow> (Inr True, [])))"

definition handleInvoicePaymentFailed :: "stripe_event \<Rightarrow> db_env \<Rightarrow> handler_result" where
  "handleInvoicePaymentFailed event db =
     (case event_object event of
        None \<Rightarrow> (Inl null_object_error, [])
      | Some invoice \<Rightarrow> (Inr True, [NotifyPaymentFailure (event_id event)]))"

text \<open>
  The \<^verbatim>\<open>switch (event.type)\<close> of \<^verbatim>\<open>serve\<close>: the handler's result, or \<open>None\<close> for a type
  without a handler.
\<close>

definition dispatch :: "stripe_event \<Rightarrow> db_env \<Rightarrow> handler_result option" where
  "dispatch event db =
     (let ty = event_type event in
      if ty = ''checkout.session.completed'' then Some (handleCheckoutSessionCompleted event db)
      else if ty = ''payment_intent.succeeded'' then Some (handlePaymentIntentSucceeded event db)
      else if ty = ''payment_intent.payment_failed'' then Some (handlePaymentIntentFailed event db)
      else if ty = ''customer.subscription.created'' \<or> ty = ''customer.subscription.updated''
        then Some (handleSubscriptionUpdated event db)
      else if ty = ''customer.subscription.deleted'' then Some (handleSubscriptionDeleted event db)
      else if ty = ''invoice.payment_succeeded'' then Some (handleInvoicePaymentSucceeded event db)
      else if ty = ''invoice.payment_failed'' then Some (handleInvoicePaymentFailed event db)
      else None)"

subsection \<open>Requests, responses and \<^verbatim>\<open>serve\<close>\<close>

text \<open>
  A request: its method, what \<^verbatim>\<open>req.text()\<close> returns or throws, and the
  \<^verbatim>\<open>stripe-signature\<close> header. A response: its status and body; headers are not
  modelled.
\<close>

record request =
  req_method :: string
  req_text :: "js_error + string"
  req_signature :: "string option"

datatype response_body =
    Text string
  | ErrorJson string "string option"
  | Ack bool bool string string
  | ErrorResponse string ErrorType string

record response =
  res_status :: nat
  res_body :: response_body

text \<open>\<^verbatim>\<open>createErrorResponse(error, operation, corsHeaders)\<close>: the status and message per class.\<close>

fun error_status :: "ErrorType \<Rightarrow> nat \<times> string" where
  "error_status AUTHENTICATION = (401, ''Authentication failed'')"
| "error_status INVALID_REQUEST = (400, ''Invalid request'')"
| "error_status CARD_ERROR = (402, ''Payment failed'')"
| "error_status RATE_LIMIT = (429, ''Rate limit exceeded'')"
| "error_status API_ERROR = (502, ''Payment service error'')"
| "error_status NETWORK = (503, ''Service temporarily unavailable'')"
| "error_status IDEMPOTENCY_ERROR = (500, ''Internal server error'')"
| "error_status UNKNOWN = (500, ''Internal server error'')"

definition createErrorResponse :: "js_error \<Rightarrow> string \<Rightarrow> response" where
  "createErrorResponse error opn =
     (let errorType = classifyError error
      in \<lparr>res_status = fst (error_status errorType),
          res_body = ErrorResponse (snd (error_status errorType)) errorType opn\<rparr>)"

text \<open>
  The module's state: the set \<^verbatim>\<open>processedEvents\<close>, the map \<^verbatim>\<open>retryAttempts\<close>, and the
  notifications made so far.
\<close>

record gateway =
  processedEvents :: "string set"
  retryAttempts :: "string \<rightharpoonup> nat"
  notifications :: "notification list"

text \<open>
  The \<^verbatim>\<open>catch\<close> block of \<^verbatim>\<open>serve\<close>, entered with the error, the value of \<^verbatim>\<open>eventId\<close> and
  the state at the throw.
\<close>

definition serve_catch :: "js_error \<Rightarrow> string \<Rightarrow> gateway \<Rightarrow> response \<times> gateway" where
  "serve_catch error eventId st =
     (let st1 = (if eventId \<noteq> ''unknown''
                 then st\<lparr>processedEvents := processedEvents st - {eventId}\<rparr> else st);
          st2 = st1\<lparr>notifications := notifications st1
                   @ [NotifyWebhookFailure eventId, NotifyCriticalError eventId]\<rparr>
      in (createErrorResponse error ''stripe_webhook'', st2))"

text \<open>
  The request handler passed to \<^verbatim>\<open>serve\<close>. \<open>webhookSecret\<close> is the configured secret and
  \<open>constructEvent body signature secret\<close> what
  \<^verbatim>\<open>stripe.webhooks.constructEventAsync\<close> returns or throws. Besides the response and
  the state afterwards the result tells whether a handler was called, and what it
  returned or threw. The source has no \<^verbatim>\<open>await\<close> between \<^verbatim>\<open>processedEvents.has(eventId)\<close>
  and \<^verbatim>\<open>processedEvents.add(eventId)\<close>, so the test and the claim of an event id are one
  step also when requests overlap.
\<close>

definition serve ::
  "string \<Rightarrow> (string \<Rightarrow> string \<Rightarrow> string \<Rightarrow> js_error + stripe_event) \<Rightarrow> gateway \<Rightarrow> request \<Rightarrow> db_env
     \<Rightarrow> response \<times> gateway \<times> (js_error + bool) option" where
  "serve webhookSecret constructEvent st req db =
     (if req_method req = ''OPTIONS'' then (\<lparr>res_status = 200, res_body = Text ''ok''\<rparr>, st, None)
      else if req_method req \<noteq> ''POST''
        then (\<lparr>res_status = 405, res_body = ErrorJson ''Method not allowed'' None\<rparr>, st, None)
      else
        (case req_text req of
           Inl error \<Rightarrow>
             (case serve_catch error ''unknown'' st of (res, st') \<Rightarrow> (res, st', None))
         | Inr body \<Rightarrow>
             if req_signature req = None \<or> req_signature req = Some []
             then (\<lparr>res_status = 400,
                    res_body = ErrorJson ''Missing signature''
                      (Some ''Stripe-Signature header is required'')\<rparr>, st, None)
             else if webhookSecret = []
             then (\<lparr>res_status = 500,
                    res_body = ErrorJson ''Webhook not configured''
                      (Some ''STRIPE_WEBHOOK_SECRET environment variable is not set'')\<rparr>, st, None)
             else
               (case constructEvent body (the (req_signature req)) webhookSecret of
                  Inl err \<Rightarrow>
                    (\<lparr>res_status = 400,
                      res_body = ErrorJson ''Invalid signature''
                        (Some ''Webhook signature verification failed'')\<rparr>, st, None)
                | Inr event \<Rightarrow>
                    (let eventId = event_id event in
                     if eventId \<in> processedEvents st
                     then (\<lparr>res_status = 200,
                            res_body = Ack True False eventId (event_type event)\<rparr>, st, None)
                     else
                       (let currentAttempts =
                              (case retryAttempts st eventId of None \<Rightarrow> 0 | Some n \<Rightarrow> n);
                            st1 = st\<lparr>processedEvents := insert eventId (processedEvents st),
                                     retryAttempts :=
                                       (retryAttempts st)(eventId \<mapsto> currentAttempts + 1)\<rparr>
                        in case dispatch event db of
                             None \<Rightarrow>
                               (\<lparr>res_status = 200,
                                 res_body = Ack True False (event_id event) (event_type event)\<rparr>,
                                st1, None)
                           | Some (Inr processed, notes) \<Rightarrow>
                               (\<lparr>res_status = 200,
                                 res_body = Ack True processed (event_id event) (event_type event)\<rparr>,
                                st1\<lparr>notifications := notifications st1 @ notes\<rparr>,
                                Some (Inr processed))
                           | Some (Inl error, notes) \<Rightarrow>
                               (case serve_catch error eventId
                                       (st1\<lparr>notifications := notifications st1 @ notes\<rparr>) of
                                  (res, st') \<Rightarrow> (res, st', Some (Inl error))))))))"

text \<open>
  One delivery is a request together with what the database does while it is
  processed. \<open>serve_all\<close> handles deliveries one after the other.
\<close>

record webhook_delivery =
  d_request :: request
  d_db :: db_env

fun serve_all ::
  "string \<Rightarrow> (string \<Rightarrow> string \<Rightarrow> string \<Rightarrow> js_error + stripe_event) \<Rightarrow> gateway \<Rightarrow> webhook_delivery list
     \<Rightarrow> (response \<times> (js_error + bool) option) list \<times> gateway" where
  "serve_all webhookSecret constructEvent st [] = ([], st)"
| "serve_all webhookSecret constructEvent st (d # ds) =
     (case serve webhookSecret constructEvent st (d_request d) (d_db d) of
        (res, st', run) \<Rightarrow>
          (case serve_all webhookSecret constructEvent st' ds of
             (outs, st'') \<Rightarrow> ((res, run) # outs, st'')))"

text \<open>
  A delivery that carries the signed event \<open>event\<close>: a POST whose body can be read, with
  a signature header that \<open>constructEvent\<close> accepts under the configured secret.
\<close>

definition delivers ::
  "string \<Rightarrow> (string \<Rightarrow> string \<Rightarrow> string \<Rightarrow> js_error + stripe_event) \<Rightarrow> webhook_delivery
     \<Rightarrow> stripe_event \<Rightarrow> bool" where
  "delivers webhookSecret constructEvent d event =
     (req_method (d_request d) = ''POST'' \<and> webhookSecret \<noteq> [] \<and>
      (case (req_text (d_request d), req_signature (d_request d)) of
         (Inr body, Some signature) \<Rightarrow>
           signature \<noteq> [] \<and> constructEvent body signature webhookSecret = Inr event
       | _ \<Rightarrow> False))"

text \<open>A handler was called and returned (it did not throw).\<close>

fun handler_returned :: "(js_error + bool) option \<Rightarrow> bool" where
  "handler_returned (Some (Inr b)) = True"
| "handler_returned run = False"

text \<open>A handler was called and threw.\<close>

fun handler_threw :: "(js_error + bool) option \<Rightarrow> bool" where
  "handler_threw (Some (Inl error)) = True"
| "handler_threw run = False"

text \<open>A handler was called, whether it returned or threw.\<close>

fun handler_called :: "(js_error + bool) option \<Rightarrow> bool" where
  "handler_called None = False"
| "handler_called (Some r) = True"

subsection \<open>Deliveries used as examples\<close>

text \<open>
  A configured secret, a signature check that accepts one signature for one event, the
  state of a freshly started module, a database whose calls all succeed and one whose
  customer upsert throws, and a POST delivery with the accepted signature.
\<close>

definition example_secret :: string where
  "example_secret = ''whsec_test''"

definition accept_event :: "stripe_event \<Rightarrow> string \<Rightarrow> string \<Rightarrow> string \<Rightarrow> js_error + stripe_event" where
  "accept_event event body signature secret =
     (if signature = ''t=1,v1=abc'' \<and> secret = example_secret then Inr event
      else Inl (Error ''No signatures found matching the expected signature for payload''))"

definition new_gateway :: gateway where
  "new_gateway = \<lparr>processedEvents = {}, retryAttempts = Map.empty, notifications = []\<rparr>"

definition db_ok :: db_env where
  "db_ok =
     \<lparr>select_user_id = Inr (Some ''user_1''),
      upsert_customer = Inr (None, Some ''row_1''),
      find_customer = Inr (None, Some ''row_1''),
      upsert_subscription = Inr (),
      upsert_payment = Inr (),
      upsert_invoice = Inr ()\<rparr>"

definition db_down :: db_env where
  "db_down = db_ok\<lparr>upsert_customer := Inl (Error ''connection lost'')\<rparr>"

definition post_delivery :: "db_env \<Rightarrow> webhook_delivery" where
  "post_delivery db =
     \<lparr>d_request = \<lparr>req_method = ''POST'', req_text = Inr ''{}'', req_signature = Some ''t=1,v1=abc''\<rparr>,
      d_db = db\<rparr>"

definition evt_payment :: stripe_event where
  "evt_payment =
     \<lparr>event_id = ''evt_1'', event_type = ''payment_intent.succeeded'',
      event_object = Some \<lparr>obj_id = ''pi_1'', obj_customer = ''cus_1'', obj_subscription = None,
                           obj_supabase_user_id = None\<rparr>\<rparr>"

definition evt_null_object :: stripe_event where
  "evt_null_object =
     \<lparr>event_id = ''evt_2'', event_type = ''invoice.payment_failed'', event_object = None\<rparr>"

definition evt_checkout :: stripe_event where
  "evt_checkout =
     \<lparr>event_id = ''evt_3'', event_type = ''checkout.session.completed'',
      event_object = Some \<lparr>obj_id = ''cs_1'', obj_customer = ''cus_1'',
                           obj_subscription = Some ''sub_1'',
                           obj_supabase_user_id = Some ''user_1''\<rparr>\<rparr>"

section \<open>Properties\<close>

subsection \<open>Retryability\<close>

text \<open>
  C6. Retryability is a function of the error class alone: \<open>isRetryableError\<close> is true
  exactly on the classes rateLimit, network and apiError, and false on authentication,
  invalidRequest, cardError, idempotencyConflict and unknown.
\<close>

theorem isRetryableError_table:
  "isRetryableError c = (c = RATE_LIMIT \<or> c = NETWORK \<or> c = API_ERROR)"
  by (cases c) simp_all

subsection \<open>Backoff\<close>

lemma overflow_threshold_large: "1000000000000 < overflow_threshold"
  by (simp add: overflow_threshold_def)

lemma fl_small: "\<bar>x\<bar> \<le> 1000000000000 \<Longrightarrow> fl x = Num x"
  using overflow_threshold_large by (auto simp add: fl_def)

lemma fl_mono: "x \<le> y \<Longrightarrow> js_less_eq (fl x) (fl y)"
  using overflow_threshold_large by (auto simp add: fl_def js_less_eq_def)

lemma js_less_eq_trans: "js_less_eq a b \<Longrightarrow> js_less_eq b c \<Longrightarrow> js_less_eq a c"
  by (cases a; cases b; cases c) (auto simp add: js_less_eq_def)

lemma Math_min_mono:
  "js_less_eq a b \<Longrightarrow> m \<noteq> NaN \<Longrightarrow> js_less_eq (Math_min a m) (Math_min b m)"
  by (cases a; cases b; cases m) (auto simp add: js_less_eq_def Math_min_def)

lemma Math_min_le: "Math_min a m \<noteq> NaN \<Longrightarrow> js_less_eq (Math_min a m) m"
  by (cases a; cases m) (auto simp add: js_less_eq_def Math_min_def)

lemma Math_min_NaN: "Math_min a m = NaN \<longleftrightarrow> a = NaN \<or> m = NaN"
  by (cases a; cases m) (auto simp add: Math_min_def)

lemma Math_pow_mono:
  assumes "js_less_eq (Num 1) m" and "0 \<le> e"
  shows "js_less_eq (Math_pow m e) (Math_pow m (e + 1))"
proof (cases m)
  case (Num x)
  then have x: "1 \<le> x" using assms(1) by (auto simp add: js_less_eq_def)
  have n: "nat (e + 1) = Suc (nat e)" using assms(2) by simp
  have "x ^ nat e \<le> x ^ nat (e + 1)" using x by (simp add: n mult_le_cancel_right1)
  then have a: "js_less_eq (fl (x ^ nat e)) (fl (x ^ nat (e + 1)))" by (rule fl_mono)
  have "(1::real) \<le> x ^ nat (e + 1)" using x by simp
  then have b: "js_less_eq (fl 1) (fl (x ^ nat (e + 1)))" by (rule fl_mono)
  have c: "fl 1 = Num 1" by (simp add: fl_small)
  show ?thesis using a b c x assms(2) Num by (auto simp add: Math_pow_def)
qed (use assms in \<open>auto simp add: Math_pow_def js_less_eq_def\<close>)

lemma Math_pow_ge_1:
  assumes "js_less_eq (Num 1) m" and "0 \<le> e"
  shows "js_less_eq (Num 1) (Math_pow m e)"
proof (cases m)
  case (Num x)
  then have x: "1 \<le> x" using assms(1) by (auto simp add: js_less_eq_def)
  have "(1::real) \<le> x ^ nat e" using x by simp
  then have b: "js_less_eq (fl 1) (fl (x ^ nat e))" by (rule fl_mono)
  have c: "fl 1 = Num 1" by (simp add: fl_small)
  show ?thesis using b c x assms(2) Num by (auto simp add: Math_pow_def js_less_eq_def)
qed (use assms in \<open>auto simp add: Math_pow_def js_less_eq_def\<close>)

lemma js_times_mono:
  assumes "js_less_eq (Num 0) b" and "js_less_eq (Num 1) p" and "js_less_eq p q"
    and "js_times b q \<noteq> NaN"
  shows "js_less_eq (js_times b p) (js_times b q)"
proof (cases b)
  case (Num x)
  then have x: "0 \<le> x" using assms(1) by (auto simp add: js_less_eq_def)
  show ?thesis
  proof (cases p)
    case pn: (Num u)
    show ?thesis
    proof (cases q)
      case qn: (Num v)
      have "u \<le> v" using assms(3) pn qn by (auto simp add: js_less_eq_def)
      then have "x * u \<le> x * v" using x by (simp add: mult_left_mono)
      then show ?thesis using Num pn qn by (simp add: fl_mono)
    next
      case Infinity
      then have "0 < x" using assms(4) Num x by (auto split: if_splits)
      then show ?thesis using Num pn Infinity
        by (auto simp add: js_less_eq_def fl_def)
    qed (use assms pn in \<open>auto simp add: js_less_eq_def\<close>)
  next
    case pi: Infinity
    then have "q = Infinity" using assms(3) by (cases q) (auto simp add: js_less_eq_def)
    then show ?thesis using assms(4) pi by (simp add: js_less_eq_def)
  qed (use assms in \<open>auto simp add: js_less_eq_def\<close>)
next
  case Infinity
  have "1 \<le> u" if "p = Num u" for u using assms(2) that by (auto simp add: js_less_eq_def)
  moreover have "1 \<le> v" if "q = Num v" for v
    using js_less_eq_trans[OF assms(2) assms(3)] that by (auto simp add: js_less_eq_def)
  ultimately show ?thesis using Infinity assms(2,3)
    by (cases p; cases q) (auto simp add: js_less_eq_def)
qed (use assms in \<open>auto simp add: js_less_eq_def\<close>)

lemma calculateDelay_no_hint:
  "\<not> jitter cfg \<Longrightarrow>
   calculateDelay n cfg None now rnd
     = Math_min (js_times (baseDelay cfg) (Math_pow (backoffMultiplier cfg) (n - 1))) (maxDelay cfg)"
  by (simp add: calculateDelay_def Let_def)

lemma calculateDelay_is_min:
  "\<exists>d. calculateDelay n cfg hint now rnd = Math_min d (maxDelay cfg)"
  by (auto simp add: calculateDelay_def Let_def split: option.splits)

text \<open>
  C7, as amended. With jitter disabled and no provider hint, for every profile whose
  \<open>baseDelay\<close> is at least 0 and whose \<open>backoffMultiplier\<close> is at least 1 (so neither is
  \<^verbatim>\<open>NaN\<close>), the delay does not decrease from attempt \<open>n\<close> to attempt \<open>n + 1\<close> (attempts
  numbered from 1) unless the delay of attempt \<open>n + 1\<close> is \<^verbatim>\<open>NaN\<close>; for a finite
  \<open>baseDelay\<close> and \<open>backoffMultiplier\<close> that delay is \<^verbatim>\<open>NaN\<close> exactly when \<open>maxDelay\<close> is
  \<^verbatim>\<open>NaN\<close>, or \<open>baseDelay\<close> is 0 and the power \<open>backoffMultiplier ^ n\<close> overflows to
  \<^verbatim>\<open>Infinity\<close> (\<^verbatim>\<open>0 * Infinity\<close>). And for every profile, attempt, hint, clock reading and
  random value, a delay that is not \<^verbatim>\<open>NaN\<close> is at most \<open>maxDelay\<close>. Comparisons are
  those of JavaScript; finite results are taken without rounding.
\<close>

theorem calculateDelay_monotone_capped:
  "(\<not> jitter cfg \<and> js_less_eq (Num 0) (baseDelay cfg) \<and> js_less_eq (Num 1) (backoffMultiplier cfg)
      \<and> 1 \<le> n \<and> calculateDelay (n + 1) cfg None now' rnd' \<noteq> NaN
      \<longrightarrow> js_less_eq (calculateDelay n cfg None now rnd) (calculateDelay (n + 1) cfg None now' rnd'))
   \<and> (\<not> jitter cfg \<and> baseDelay cfg = Num b \<and> 0 \<le> b \<and> backoffMultiplier cfg = Num m \<and> 1 \<le> m
      \<and> 1 \<le> n
      \<longrightarrow> (calculateDelay (n + 1) cfg None now' rnd' = NaN
            \<longleftrightarrow> maxDelay cfg = NaN \<or> (b = 0 \<and> overflow_threshold \<le> m ^ nat n)))
   \<and> (calculateDelay n cfg hint now rnd \<noteq> NaN
      \<longrightarrow> js_less_eq (calculateDelay n cfg hint now rnd) (maxDelay cfg))"
proof (intro conjI impI)
  assume a: "\<not> jitter cfg \<and> js_less_eq (Num 0) (baseDelay cfg)
    \<and> js_less_eq (Num 1) (backoffMultiplier cfg) \<and> 1 \<le> n
    \<and> calculateDelay (n + 1) cfg None now' rnd' \<noteq> NaN"
  let ?p = "\<lambda>k. js_times (baseDelay cfg) (Math_pow (backoffMultiplier cfg) (k - 1))"
  have d: "calculateDelay (n + 1) cfg None now' rnd' = Math_min (?p (n + 1)) (maxDelay cfg)"
    "calculateDelay n cfg None now rnd = Math_min (?p n) (maxDelay cfg)"
    using a by (simp_all add: calculateDelay_no_hint)
  have nn: "?p (n + 1) \<noteq> NaN" "maxDelay cfg \<noteq> NaN"
    using a d(1) by (simp_all add: Math_min_NaN)
  have e: "n + 1 - 1 = n - 1 + 1" by simp
  have "js_less_eq (Math_pow (backoffMultiplier cfg) (n - 1))
      (Math_pow (backoffMultiplier cfg) (n + 1 - 1))"
    unfolding e using a by (intro Math_pow_mono) auto
  moreover have "js_less_eq (Num 1) (Math_pow (backoffMultiplier cfg) (n - 1))"
    using a by (intro Math_pow_ge_1) auto
  ultimately have "js_less_eq (?p n) (?p (n + 1))"
    using a nn(1) by (intro js_times_mono) auto
  then show "js_less_eq (calculateDelay n cfg None now rnd)
      (calculateDelay (n + 1) cfg None now' rnd')"
    unfolding d using nn(2) by (rule Math_min_mono)
next
  assume a: "\<not> jitter cfg \<and> baseDelay cfg = Num b \<and> 0 \<le> b \<and> backoffMultiplier cfg = Num m
    \<and> 1 \<le> m \<and> 1 \<le> n"
  then have p: "Math_pow (Num m) (n + 1 - 1) = fl (m ^ nat n)"
    by (simp add: Math_pow_def)
  have "0 < m ^ nat n" using a by simp
  then have q: "fl (m ^ nat n) \<noteq> NegInfinity" "fl (m ^ nat n) \<noteq> NaN"
    "fl (m ^ nat n) = Infinity \<longleftrightarrow> overflow_threshold \<le> m ^ nat n"
    using overflow_threshold_large by (auto simp add: fl_def)
  have "js_times (Num b) (fl (m ^ nat n)) = NaN \<longleftrightarrow> b = 0 \<and> overflow_threshold \<le> m ^ nat n"
    using q by (cases "fl (m ^ nat n)") (auto simp add: fl_def)
  then show "calculateDelay (n + 1) cfg None now' rnd' = NaN
      \<longleftrightarrow> maxDelay cfg = NaN \<or> (b = 0 \<and> overflow_threshold \<le> m ^ nat n)"
    using a p by (auto simp add: calculateDelay_no_hint Math_min_NaN)
next
  assume a: "calculateDelay n cfg hint now rnd \<noteq> NaN"
  obtain d where d: "calculateDelay n cfg hint now rnd = Math_min d (maxDelay cfg)"
    using calculateDelay_is_min by blast
  show "js_less_eq (calculateDelay n cfg hint now rnd) (maxDelay cfg)"
    using a unfolding d by (rule Math_min_le)
qed

theorem calculateDelay_monotone_capped_witness:
  "calculateDelay 1 (DEFAULT_RETRY_CONFIG\<lparr>jitter := False\<rparr>) None 0 0 = Num 1000
   \<and> calculateDelay 2 (DEFAULT_RETRY_CONFIG\<lparr>jitter := False\<rparr>) None 0 0 = Num 2000
   \<and> js_less_eq (calculateDelay 1 (DEFAULT_RETRY_CONFIG\<lparr>jitter := False\<rparr>) None 0 0)
       (calculateDelay (1 + 1) (DEFAULT_RETRY_CONFIG\<lparr>jitter := False\<rparr>) None 0 0)
   \<and> calculateDelay (1 + 1) (DEFAULT_RETRY_CONFIG\<lparr>jitter := False\<rparr>) None 0 0 \<noteq> NaN
   \<and> js_less_eq (calculateDelay 1 (DEFAULT_RETRY_CONFIG\<lparr>jitter := False\<rparr>) None 0 0)
       (maxDelay (DEFAULT_RETRY_CONFIG\<lparr>jitter := False\<rparr>))"
  using calculateDelay_monotone_capped
    [of "DEFAULT_RETRY_CONFIG\<lparr>jitter := False\<rparr>" 1 0 0 0 0 1000 2 None]
  by (simp add: DEFAULT_RETRY_CONFIG_def calculateDelay_def Math_pow_def Math_min_def fl_small js_less_eq_def)

text \<open>
  C7 as stated fails. A profile with \<open>backoffMultiplier = 1/2\<close> and jitter disabled gives
  the delay 1000 at attempt 1 and 500 at attempt 2; a profile with \<open>baseDelay = -1000\<close>
  gives -1000 and then -2000; and a profile with \<open>baseDelay = 0\<close> and
  \<open>backoffMultiplier = 10^200\<close> gives 0 at attempt 2 and \<^verbatim>\<open>NaN\<close> at attempt 3
  (\<^verbatim>\<open>0 * Infinity\<close>), which is neither at least 0 nor at most \<open>maxDelay\<close>.
\<close>

theorem calculateDelay_monotone_counterexample:
  "calculateDelay 1 \<lparr>maxRetries = 3, baseDelay = Num 1000, maxDelay = Num 30000,
       backoffMultiplier = Num (1 / 2), jitter = False\<rparr> None 0 0 = Num 1000
   \<and> calculateDelay 2 \<lparr>maxRetries = 3, baseDelay = Num 1000, maxDelay = Num 30000,
       backoffMultiplier = Num (1 / 2), jitter = False\<rparr> None 0 0 = Num 500
   \<and> js_less (Num 500) (Num 1000)
   \<and> calculateDelay 1 \<lparr>maxRetries = 3, baseDelay = Num (- 1000), maxDelay = Num 30000,
       backoffMultiplier = Num 2, jitter = False\<rparr> None 0 0 = Num (- 1000)
   \<and> calculateDelay 2 \<lparr>maxRetries = 3, baseDelay = Num (- 1000), maxDelay = Num 30000,
       backoffMultiplier = Num 2, jitter = False\<rparr> None 0 0 = Num (- 2000)
   \<and> js_less (Num (- 2000)) (Num (- 1000))
   \<and> calculateDelay 2 \<lparr>maxRetries = 3, baseDelay = Num 0, maxDelay = Num 30000,
       backoffMultiplier = Num (10 ^ 200), jitter = False\<rparr> None 0 0 = Num 0
   \<and> calculateDelay 3 \<lparr>maxRetries = 3, baseDelay = Num 0, maxDelay = Num 30000,
       backoffMultiplier = Num (10 ^ 200), jitter = False\<rparr> None 0 0 = NaN
   \<and> \<not> js_less_eq (Num 0) NaN \<and> \<not> js_less_eq NaN (Num 30000)"
  by (simp add: calculateDelay_def Math_pow_def Math_min_def fl_def overflow_threshold_def
      js_less_eq_def)

text \<open>
  C8, as amended. A hint \<open>r\<close> (in seconds) that is not zero and lies after the clock
  reading, \<open>r * 1000 - now > 0\<close>, gives the delay \<open>r * 1000 - now + 1000\<close> capped at
  \<open>maxDelay\<close>; a hint that is zero, or at or before the clock reading, is ignored and the
  delay is the exponential one, as without a hint. The first two conjuncts state this
  with the operators of JavaScript, for every hint including \<^verbatim>\<open>NaN\<close> and \<^verbatim>\<open>Infinity\<close>;
  the last two give the values for a finite hint, where the product and the sums do not
  overflow and the clock reading is a double.
\<close>

theorem calculateDelay_hint:
  "(ToBoolean r \<and> js_greater (js_minus (js_times r (Num 1000)) (Num now)) (Num 0)
      \<longrightarrow> calculateDelay n cfg (Some r) now rnd
            = Math_min (js_plus (js_minus (js_times r (Num 1000)) (Num now)) (Num 1000))
                (maxDelay cfg))
   \<and> (\<not> ToBoolean r \<or> \<not> js_greater (js_minus (js_times r (Num 1000)) (Num now)) (Num 0)
      \<longrightarrow> calculateDelay n cfg (Some r) now rnd = calculateDelay n cfg None now rnd)
   \<and> (x \<noteq> 0 \<and> x * 1000 - now > 0 \<and> \<bar>x\<bar> * 1000 + \<bar>now\<bar> + 1000 < overflow_threshold
      \<longrightarrow> calculateDelay n cfg (Some (Num x)) now rnd
            = Math_min (Num (x * 1000 - now + 1000)) (maxDelay cfg))
   \<and> (x = 0 \<or> (x * 1000 - now \<le> 0 \<and> now < overflow_threshold)
      \<longrightarrow> calculateDelay n cfg (Some (Num x)) now rnd = calculateDelay n cfg None now rnd)"
proof (intro conjI impI)
  assume a: "x \<noteq> 0 \<and> x * 1000 - now > 0 \<and> \<bar>x\<bar> * 1000 + \<bar>now\<bar> + 1000 < overflow_threshold"
  then have "fl (x * 1000) = Num (x * 1000)" by (auto simp add: fl_def)
  moreover have "fl (x * 1000 - now) = Num (x * 1000 - now)" using a by (auto simp add: fl_def)
  moreover have "fl (x * 1000 - now + 1000) = Num (x * 1000 - now + 1000)"
    using a by (auto simp add: fl_def)
  ultimately show "calculateDelay n cfg (Some (Num x)) now rnd
      = Math_min (Num (x * 1000 - now + 1000)) (maxDelay cfg)"
    using a by (simp add: calculateDelay_def Let_def js_minus_def js_greater_def)
next
  assume a: "x = 0 \<or> (x * 1000 - now \<le> 0 \<and> now < overflow_threshold)"
  have "\<not> js_greater (js_minus (fl (x * 1000)) (Num now)) (Num 0)"
    if "x * 1000 - now \<le> 0 \<and> now < overflow_threshold"
    using that by (auto simp add: fl_def js_minus_def js_greater_def)
  then show "calculateDelay n cfg (Some (Num x)) now rnd = calculateDelay n cfg None now rnd"
    using a by (auto simp add: calculateDelay_def Let_def)
qed (auto simp add: calculateDelay_def Let_def)

theorem calculateDelay_hint_witness:
  "calculateDelay 1 DEFAULT_RETRY_CONFIG (Some (Num 250)) 200000 0 = Num 30000
   \<and> calculateDelay 1 DEFAULT_RETRY_CONFIG (Some (Num 205)) 200000 0 = Num 6000
   \<and> calculateDelay 2 DEFAULT_RETRY_CONFIG (Some (Num 100)) 200000 (1 / 2)
       = calculateDelay 2 DEFAULT_RETRY_CONFIG None 200000 (1 / 2)"
  using calculateDelay_hint [of "Num 250" 200000 1 DEFAULT_RETRY_CONFIG 0 250]
    calculateDelay_hint [of "Num 205" 200000 1 DEFAULT_RETRY_CONFIG 0 205]
    calculateDelay_hint [of "Num 100" 200000 2 DEFAULT_RETRY_CONFIG "1 / 2" 100]
  by (simp add: DEFAULT_RETRY_CONFIG_def Math_min_def fl_small
      js_minus_def js_greater_def)

text \<open>
  C8 as stated fails for a hint before the current time: with the hint 100 s, the clock
  at 200000 ms, attempt 2 and the default profile (random value 1/2) the delay is the
  exponential one with jitter, 1500, where \<open>max(0, hintTime - now) + buffer\<close> capped at
  \<open>maxDelay\<close> is 1000.
\<close>

theorem calculateDelay_hint_counterexample:
  "calculateDelay 2 DEFAULT_RETRY_CONFIG (Some (Num 100)) 200000 (1 / 2) = Num 1500
   \<and> Math_min (Num (max 0 (100 * 1000 - 200000) + 1000)) (maxDelay DEFAULT_RETRY_CONFIG)
       = Num 1000"
  by (simp add: calculateDelay_def Math_pow_def DEFAULT_RETRY_CONFIG_def Math_min_def fl_small js_minus_def js_greater_def)

subsection \<open>The retry loop\<close>

lemma withRetry_loop_success:
  "operation k = Inr v \<Longrightarrow> k \<le> maxRetries cfg + 1 \<Longrightarrow>
   withRetry_loop operation cfg now rnd k le sl = \<lparr>outcome = Inr v, attempts = k, sleeps = sl\<rparr>"
  by (subst withRetry_loop.simps) simp

lemma withRetry_loop_terminal:
  "operation k = Inl e \<Longrightarrow> k \<le> maxRetries cfg + 1 \<Longrightarrow>
   k > maxRetries cfg \<or> \<not> isRetryableError (classifyError e) \<Longrightarrow>
   withRetry_loop operation cfg now rnd k le sl = \<lparr>outcome = Inl e, attempts = k, sleeps = sl\<rparr>"
  by (subst withRetry_loop.simps) (simp add: Let_def)

lemma withRetry_loop_retry:
  "operation k = Inl e \<Longrightarrow> k \<le> maxRetries cfg \<Longrightarrow> isRetryableError (classifyError e) \<Longrightarrow>
   withRetry_loop operation cfg now rnd k le sl =
   withRetry_loop operation cfg now rnd (k + 1) e (sl @ [retry_delay cfg k e (now k) (rnd k)])"
  by (subst withRetry_loop.simps) (simp add: Let_def)

text \<open>Attempts \<open>a, \<dots>, k - 1\<close> that fail with retryable errors lead to attempt \<open>k\<close>.\<close>

lemma withRetry_loop_skip:
  assumes "\<forall>j. a \<le> j \<and> j < k \<longrightarrow>
             operation j = Inl (err j) \<and> isRetryableError (classifyError (err j))"
    and "a \<le> k" and "k \<le> maxRetries cfg + 1"
  shows "\<exists>le'. withRetry_loop operation cfg now rnd a le sl =
     withRetry_loop operation cfg now rnd k le'
       (sl @ map (\<lambda>j. retry_delay cfg j (err j) (now j) (rnd j)) [a..<k])"
  using assms
proof (induction "k - a" arbitrary: a le sl)
  case 0
  then have "a = k" by simp
  then show ?case by auto
next
  case (Suc n)
  then have ak: "a < k" by simp
  with Suc.prems have e: "operation a = Inl (err a)" "isRetryableError (classifyError (err a))"
    by auto
  define d where "d = retry_delay cfg a (err a) (now a) (rnd a)"
  have step: "withRetry_loop operation cfg now rnd a le sl =
     withRetry_loop operation cfg now rnd (a + 1) (err a) (sl @ [d])"
    unfolding d_def using e ak Suc.prems(3) by (intro withRetry_loop_retry) auto
  have "n = k - (a + 1)" using Suc.hyps(2) by simp
  moreover have "\<forall>j. a + 1 \<le> j \<and> j < k \<longrightarrow>
      operation j = Inl (err j) \<and> isRetryableError (classifyError (err j))"
    using Suc.prems(1) by auto
  ultimately obtain le' where
    "withRetry_loop operation cfg now rnd (a + 1) (err a) (sl @ [d]) =
     withRetry_loop operation cfg now rnd k le'
       ((sl @ [d]) @ map (\<lambda>j. retry_delay cfg j (err j) (now j) (rnd j)) [a + 1..<k])"
    using Suc.hyps(1)[of "a + 1" "err a" "sl @ [d]"] ak Suc.prems(3) by auto
  moreover have "[a..<k] = a # [a + 1..<k]" using ak by (simp add: upt_conv_Cons)
  ultimately show ?case using step by (auto simp: d_def)
qed

lemma withRetry_loop_bounds:
  "a \<le> maxRetries cfg + 1 \<Longrightarrow>
   a \<le> attempts (withRetry_loop operation cfg now rnd a le sl) \<and>
   attempts (withRetry_loop operation cfg now rnd a le sl) \<le> maxRetries cfg + 1"
proof (induction operation cfg now rnd a le sl rule: withRetry_loop.induct)
  case (1 operation config now rnd attempt lastError slept)
  show ?case
  proof (cases "operation attempt")
    case (Inr v)
    then show ?thesis using "1.prems" by (simp add: withRetry_loop_success)
  next
    case (Inl e)
    show ?thesis
    proof (cases "attempt > maxRetries config \<or> \<not> isRetryableError (classifyError e)")
      case True
      then show ?thesis using Inl "1.prems" by (simp add: withRetry_loop_terminal)
    next
      case False
      then have le: "attempt \<le> maxRetries config" and r: "isRetryableError (classifyError e)"
        by auto
      define d where "d = retry_delay config attempt e (now attempt) (rnd attempt)"
      have "attempt + 1 \<le> attempts (withRetry_loop operation config now rnd (attempt + 1) e
               (slept @ [d])) \<and>
            attempts (withRetry_loop operation config now rnd (attempt + 1) e
               (slept @ [d])) \<le> maxRetries config + 1"
        unfolding d_def using "1.IH"[OF "1.prems" Inl refl _ refl] False le by simp
      then show ?thesis
        using withRetry_loop_retry[where operation=operation and k=attempt and e=e
            and cfg=config and now=now and rnd=rnd and le=lastError and sl=slept] Inl le r
        by (simp add: d_def)
    qed
  qed
qed

lemma withRetry_behaviour:
  assumes "1 \<le> k" and "k \<le> maxRetries cfg + 1"
    and "\<forall>j. 1 \<le> j \<and> j < k \<longrightarrow>
           operation j = Inl (err j) \<and> isRetryableError (classifyError (err j))"
  shows "(operation k = Inr v \<longrightarrow>
            withRetry operation cfg now rnd =
              \<lparr>outcome = Inr v, attempts = k,
               sleeps = map (\<lambda>j. retry_delay cfg j (err j) (now j) (rnd j)) [1..<k]\<rparr>)
       \<and> (operation k = Inl e \<and> (k > maxRetries cfg \<or> \<not> isRetryableError (classifyError e)) \<longrightarrow>
            withRetry operation cfg now rnd =
              \<lparr>outcome = Inl e, attempts = k,
               sleeps = map (\<lambda>j. retry_delay cfg j (err j) (now j) (rnd j)) [1..<k]\<rparr>)"
proof -
  obtain le' where skip: "withRetry operation cfg now rnd =
     withRetry_loop operation cfg now rnd k le'
       (map (\<lambda>j. retry_delay cfg j (err j) (now j) (rnd j)) [1..<k])"
    using withRetry_loop_skip[OF assms(3) assms(1) assms(2), of now rnd Undefined "[]"]
    by (auto simp: withRetry_def)
  show ?thesis
    using skip assms(2) by (auto simp: withRetry_loop_success withRetry_loop_terminal)
qed

text \<open>
  C4, as amended. \<open>withRetry\<close> calls the operation directly (no circuit breaker takes
  part in the loop) for attempts \<open>1, 2, \<dots>\<close> up to \<open>maxRetries + 1\<close>. When attempts
  \<open>1, \<dots>, k - 1\<close> fail with retryable errors: a success at attempt \<open>k\<close> is returned after
  exactly \<open>k\<close> calls; a failure at attempt \<open>k\<close> that is not retryable, or with
  \<open>k > maxRetries\<close>, is thrown as it is (so with its error class) after exactly \<open>k\<close> calls;
  and in both cases the loop has slept the computed delay after each of the first
  \<open>k - 1\<close> attempts. In particular two network failures followed by a success under
  \<open>maxRetries = 3\<close> give the success value after three attempts, and an authentication
  failure at the first attempt is thrown after that single attempt, without any sleep.
\<close>

theorem withRetry_executor:
  "(1 \<le> k \<and> k \<le> maxRetries cfg + 1
      \<and> (\<forall>j. 1 \<le> j \<and> j < k \<longrightarrow>
             operation j = Inl (err j) \<and> isRetryableError (classifyError (err j)))
    \<longrightarrow> (operation k = Inr v \<longrightarrow>
            withRetry operation cfg now rnd =
              \<lparr>outcome = Inr v, attempts = k,
               sleeps = map (\<lambda>j. retry_delay cfg j (err j) (now j) (rnd j)) [1..<k]\<rparr>)
       \<and> (operation k = Inl e \<and> (k > maxRetries cfg \<or> \<not> isRetryableError (classifyError e)) \<longrightarrow>
            withRetry operation cfg now rnd =
              \<lparr>outcome = Inl e, attempts = k,
               sleeps = map (\<lambda>j. retry_delay cfg j (err j) (now j) (rnd j)) [1..<k]\<rparr>))
   \<and> (maxRetries cfg = 3
        \<and> operation 1 = Inl e1 \<and> classifyError e1 = NETWORK
        \<and> operation 2 = Inl e2 \<and> classifyError e2 = NETWORK
        \<and> operation 3 = Inr v
      \<longrightarrow> outcome (withRetry operation cfg now rnd) = Inr v
          \<and> attempts (withRetry operation cfg now rnd) = 3)
   \<and> (operation 1 = Inl e \<and> classifyError e = AUTHENTICATION
      \<longrightarrow> withRetry operation cfg now rnd = \<lparr>outcome = Inl e, attempts = 1, sleeps = []\<rparr>)"
proof (intro conjI impI)
  assume h: "1 \<le> k \<and> k \<le> maxRetries cfg + 1
      \<and> (\<forall>j. 1 \<le> j \<and> j < k \<longrightarrow>
             operation j = Inl (err j) \<and> isRetryableError (classifyError (err j)))"
  { assume "operation k = Inr v"
    then show "withRetry operation cfg now rnd =
              \<lparr>outcome = Inr v, attempts = k,
               sleeps = map (\<lambda>j. retry_delay cfg j (err j) (now j) (rnd j)) [1..<k]\<rparr>"
      using withRetry_behaviour[of k cfg operation err v now rnd e] h by blast }
  { assume "operation k = Inl e \<and> (k > maxRetries cfg \<or> \<not> isRetryableError (classifyError e))"
    then show "withRetry operation cfg now rnd =
              \<lparr>outcome = Inl e, attempts = k,
               sleeps = map (\<lambda>j. retry_delay cfg j (err j) (now j) (rnd j)) [1..<k]\<rparr>"
      using withRetry_behaviour[of k cfg operation err v now rnd e] h by blast }
next
  assume h: "maxRetries cfg = 3
        \<and> operation 1 = Inl e1 \<and> classifyError e1 = NETWORK
        \<and> operation 2 = Inl e2 \<and> classifyError e2 = NETWORK
        \<and> operation 3 = Inr v"
  define err where "err = (\<lambda>j::nat. if j = 1 then e1 else e2)"
  have "\<forall>j. 1 \<le> j \<and> j < 3 \<longrightarrow>
           operation j = Inl (err j) \<and> isRetryableError (classifyError (err j))"
  proof (intro allI impI)
    fix j :: nat assume "1 \<le> j \<and> j < 3"
    then have "j = 1 \<or> j = 2" by auto
    then show "operation j = Inl (err j) \<and> isRetryableError (classifyError (err j))"
      using h by (auto simp: err_def)
  qed
  then have r: "withRetry operation cfg now rnd =
              \<lparr>outcome = Inr v, attempts = 3,
               sleeps = map (\<lambda>j. retry_delay cfg j (err j) (now j) (rnd j)) [1..<3]\<rparr>"
    using withRetry_behaviour[of 3 cfg operation err v now rnd e] h by simp
  show "outcome (withRetry operation cfg now rnd) = Inr v" by (simp add: r)
  show "attempts (withRetry operation cfg now rnd) = 3" by (simp add: r)
next
  assume h: "operation 1 = Inl e \<and> classifyError e = AUTHENTICATION"
  then show "withRetry operation cfg now rnd = \<lparr>outcome = Inl e, attempts = 1, sleeps = []\<rparr>"
    using withRetry_behaviour[of 1 cfg operation "\<lambda>j. e" undefined now rnd e] by simp
qed

theorem withRetry_executor_witness:
  "withRetry (\<lambda>k. if k \<le> 2 then Inl (TypeError ''fetch failed'') else Inr (42::nat))
       DEFAULT_RETRY_CONFIG (\<lambda>k. 0) (\<lambda>k. 0)
     = \<lparr>outcome = Inr 42, attempts = 3, sleeps = [Num 500, Num 1000]\<rparr>
   \<and> withRetry (\<lambda>k. Inl (StripeError ''StripeAuthenticationError'' None) :: js_error + nat)
       DEFAULT_RETRY_CONFIG (\<lambda>k. 0) (\<lambda>k. 0)
     = \<lparr>outcome = Inl (StripeError ''StripeAuthenticationError'' None), attempts = 1, sleeps = []\<rparr>"
proof -
  have s: "sublist ''fetch'' ''fetch failed''" by code_simp
  have a: "[Suc 0..<3] = [1, 2::nat]" by (simp add: upt_rec)
  show ?thesis
    using withRetry_executor[of 3 DEFAULT_RETRY_CONFIG
        "\<lambda>k. if k \<le> 2 then Inl (TypeError ''fetch failed'') else Inr (42::nat)"
        "\<lambda>k. TypeError ''fetch failed''" 42 "\<lambda>k. 0" "\<lambda>k. 0" Undefined Undefined Undefined]
      withRetry_executor[of 1 DEFAULT_RETRY_CONFIG
        "\<lambda>k. Inl (StripeError ''StripeAuthenticationError'' None) :: js_error + nat"
        "\<lambda>k. Undefined" 0 "\<lambda>k. 0" "\<lambda>k. 0" "StripeError ''StripeAuthenticationError'' None"
        Undefined Undefined]
    by (simp add: s a DEFAULT_RETRY_CONFIG_def retry_delay_def rateLimitResetTime_of_def
        calculateDelay_def Math_pow_def Math_min_def fl_small Let_def)
qed

text \<open>
  C4 as stated fails where it has the loop run each attempt through the circuit
  breaker: \<open>withRetry\<close> never consults a breaker. For an operation that fails twice with
  a network error and then succeeds, \<open>withRetry\<close> under the default profile returns the
  value after three attempts, while the loop of the specification, with a breaker of
  failure threshold 1, lets one attempt through, finds the breaker open at the second
  and ends with the breaker's error.
\<close>

theorem withRetry_circuit_breaker_counterexample:
  "outcome (withRetry (\<lambda>k. if k \<le> 2 then Inl (TypeError ''fetch failed'') else Inr (42::nat))
       DEFAULT_RETRY_CONFIG (\<lambda>k. 0) (\<lambda>k. 0)) = Inr 42
   \<and> attempts (withRetry (\<lambda>k. if k \<le> 2 then Inl (TypeError ''fetch failed'') else Inr (42::nat))
       DEFAULT_RETRY_CONFIG (\<lambda>k. 0) (\<lambda>k. 0)) = 3
   \<and> outcome (fst (spec_execute
       (\<lambda>k. if k \<le> 2 then Inl (TypeError ''fetch failed'') else Inr (42::nat))
       DEFAULT_RETRY_CONFIG (\<lambda>k. 0) (\<lambda>k. 0) (new_CircuitBreaker 1 60000))) = Inl circuit_open_error
   \<and> attempts (fst (spec_execute
       (\<lambda>k. if k \<le> 2 then Inl (TypeError ''fetch failed'') else Inr (42::nat))
       DEFAULT_RETRY_CONFIG (\<lambda>k. 0) (\<lambda>k. 0) (new_CircuitBreaker 1 60000))) = 1"
proof -
  have s: "sublist ''fetch'' ''fetch failed''" by code_simp
  have w: "withRetry (\<lambda>k. if k \<le> 2 then Inl (TypeError ''fetch failed'') else Inr (42::nat))
       DEFAULT_RETRY_CONFIG (\<lambda>k. 0) (\<lambda>k. 0)
     = \<lparr>outcome = Inr 42, attempts = 3,
        sleeps = map (\<lambda>j. retry_delay DEFAULT_RETRY_CONFIG j (TypeError ''fetch failed'') 0 0) [1..<3]\<rparr>"
    using withRetry_behaviour[of 3 DEFAULT_RETRY_CONFIG
        "\<lambda>k. if k \<le> 2 then Inl (TypeError ''fetch failed'') else Inr (42::nat)"
        "\<lambda>k. TypeError ''fetch failed''" 42 "\<lambda>k. 0" "\<lambda>k. 0" Undefined]
    by (simp add: s DEFAULT_RETRY_CONFIG_def)
  have e: "spec_execute (\<lambda>k. if k \<le> 2 then Inl (TypeError ''fetch failed'') else Inr (42::nat))
       DEFAULT_RETRY_CONFIG (\<lambda>k. 0) (\<lambda>k. 0) (new_CircuitBreaker 1 60000)
     = (\<lparr>outcome = Inl circuit_open_error, attempts = 1,
         sleeps = [retry_delay DEFAULT_RETRY_CONFIG 1 (TypeError ''fetch failed'') 0 0]\<rparr>,
        \<lparr>failures = 1, lastFailureTime = 0, state = Open, failureThreshold = 1,
         resetTimeout = 60000\<rparr>)"
    unfolding spec_execute_def
    by (simp add: execute_def execute_enter_def execute_settle_def new_CircuitBreaker_def
        onFailure_def s DEFAULT_RETRY_CONFIG_def Let_def circuit_open_error_def)
  show ?thesis using w e by simp
qed

text \<open>
  C10. \<open>withRetry\<close> makes at least one and at most \<open>maxRetries + 1\<close> attempts, with
  \<open>maxRetries\<close> of the caller's configuration, whatever the errors are. When every
  attempt fails with a rate-limit error it makes exactly \<open>maxRetries + 1\<close> attempts and
  throws the last error, and \<^verbatim>\<open>RATE_LIMIT_RETRY_CONFIG\<close> enters only the delays: the
  delay after attempt \<open>j\<close> is \<open>calculateDelay j RATE_LIMIT_RETRY_CONFIG\<close>.
\<close>

theorem withRetry_attempt_bound:
  "1 \<le> attempts (withRetry operation cfg now rnd)
   \<and> attempts (withRetry operation cfg now rnd) \<le> maxRetries cfg + 1
   \<and> ((\<forall>j. operation j = Inl (err j) \<and> classifyError (err j) = RATE_LIMIT)
       \<longrightarrow> attempts (withRetry operation cfg now rnd) = maxRetries cfg + 1
         \<and> outcome (withRetry operation cfg now rnd) = Inl (err (maxRetries cfg + 1))
         \<and> sleeps (withRetry operation cfg now rnd) =
             map (\<lambda>j. calculateDelay (int j) RATE_LIMIT_RETRY_CONFIG
                        (rateLimitResetTime_of (err j)) (now j) (rnd j))
               [1..<maxRetries cfg + 1])"
proof (intro conjI impI)
  show "1 \<le> attempts (withRetry operation cfg now rnd)"
    using withRetry_loop_bounds[of 1 cfg operation now rnd Undefined "[]"]
    by (simp add: withRetry_def)
  show "attempts (withRetry operation cfg now rnd) \<le> maxRetries cfg + 1"
    using withRetry_loop_bounds[of 1 cfg operation now rnd Undefined "[]"]
    by (simp add: withRetry_def)
next
  assume h: "\<forall>j. operation j = Inl (err j) \<and> classifyError (err j) = RATE_LIMIT"
  have r: "withRetry operation cfg now rnd =
      \<lparr>outcome = Inl (err (maxRetries cfg + 1)), attempts = maxRetries cfg + 1,
       sleeps = map (\<lambda>j. retry_delay cfg j (err j) (now j) (rnd j)) [1..<maxRetries cfg + 1]\<rparr>"
    using withRetry_behaviour[of "maxRetries cfg + 1" cfg operation err undefined now rnd
        "err (maxRetries cfg + 1)"] h
    by simp
  have d: "map (\<lambda>j. retry_delay cfg j (err j) (now j) (rnd j)) [1..<maxRetries cfg + 1]
      = map (\<lambda>j. calculateDelay (int j) RATE_LIMIT_RETRY_CONFIG
                        (rateLimitResetTime_of (err j)) (now j) (rnd j)) [1..<maxRetries cfg + 1]"
    using h by (simp add: retry_delay_def Let_def)
  show "attempts (withRetry operation cfg now rnd) = maxRetries cfg + 1" by (simp add: r)
  show "outcome (withRetry operation cfg now rnd) = Inl (err (maxRetries cfg + 1))" by (simp add: r)
  show "sleeps (withRetry operation cfg now rnd) =
             map (\<lambda>j. calculateDelay (int j) RATE_LIMIT_RETRY_CONFIG
                        (rateLimitResetTime_of (err j)) (now j) (rnd j))
               [1..<maxRetries cfg + 1]" by (subst r) (simp only: retry_run.simps d)
qed

theorem withRetry_attempt_bound_witness:
  "attempts (withRetry (\<lambda>k. Inl (StripeError ''StripeRateLimitError'' None) :: js_error + nat)
      DEFAULT_RETRY_CONFIG (\<lambda>k. 0) (\<lambda>k. 0)) = 4
   \<and> sleeps (withRetry (\<lambda>k. Inl (StripeError ''StripeRateLimitError'' None) :: js_error + nat)
      DEFAULT_RETRY_CONFIG (\<lambda>k. 0) (\<lambda>k. 0)) = [Num 1000, Num 2000, Num 4000]
   \<and> maxRetries RATE_LIMIT_RETRY_CONFIG + 1 = 6"
proof -
  have a: "[Suc 0..<4] = [1, 2, 3::nat]" by (simp add: upt_rec)
  show ?thesis
    using withRetry_attempt_bound[of "\<lambda>k. Inl (StripeError ''StripeRateLimitError'' None) :: js_error + nat"
      DEFAULT_RETRY_CONFIG "\<lambda>k. 0" "\<lambda>k. 0" "\<lambda>k. StripeError ''StripeRateLimitError'' None"]
    by (simp add: a DEFAULT_RETRY_CONFIG_def RATE_LIMIT_RETRY_CONFIG_def rateLimitResetTime_of_def
        calculateDelay_def Math_pow_def Math_min_def fl_small Let_def)
qed

subsection \<open>The circuit breaker\<close>

lemma execute_enter_fields [simp]:
  "failureThreshold (snd (execute_enter cb now)) = failureThreshold cb"
  "resetTimeout (snd (execute_enter cb now)) = resetTimeout cb"
  "failures (snd (execute_enter cb now)) = failures cb"
  "lastFailureTime (snd (execute_enter cb now)) = lastFailureTime cb"
  by (simp_all add: execute_enter_def)

lemma execute_settle_fields [simp]:
  "failureThreshold (snd (execute_settle cb op fa)) = failureThreshold cb"
  "resetTimeout (snd (execute_settle cb op fa)) = resetTimeout cb"
  by (simp_all add: execute_settle_def onSuccess_def onFailure_def Let_def split: sum.splits)

lemma execute_steps_snd_Cons:
  "snd (execute_steps cb (Enter now # ss)) = snd (execute_steps (snd (execute_enter cb now)) ss)"
  "snd (execute_steps cb (Settle op fa # ss)) = snd (execute_steps (snd (execute_settle cb op fa)) ss)"
  by (simp_all add: split_beta)

lemma execute_steps_fields [simp]:
  "failureThreshold (snd (execute_steps cb ss)) = failureThreshold cb
   \<and> resetTimeout (snd (execute_steps cb ss)) = resetTimeout cb"
proof (induction ss arbitrary: cb)
  case Nil
  then show ?case by simp
next
  case (Cons s ss)
  show ?case
  proof (cases s)
    case (Enter now)
    show ?thesis unfolding Enter execute_steps_snd_Cons
      using Cons[of "snd (execute_enter cb now)"] by simp
  next
    case (Settle op fa)
    show ?thesis unfolding Settle execute_steps_snd_Cons
      using Cons[of "snd (execute_settle cb op fa)"] by simp
  qed
qed











section \<open>Properties of the notification rate limit\<close>





lemma distinct_filter_keys: "distinct (map fst c) \<Longrightarrow> distinct (map fst (filter P c))"
  by (rule distinct_map_filter)





lemma sendAdminNotification_unfold:
  "sendAdminNotification cache data config t_check t_set t_cutoff =
     (let limiting = (case rateLimitMinutes config of None \<Rightarrow> False | Some m \<Rightarrow> m \<noteq> 0)
      in if data_severity data \<notin> set (enabledSeverities config) then (Dropped, cache)
         else if limiting \<and> isRateLimited cache data (the (rateLimitMinutes config)) t_check
         then (RateLimited, cache)
         else (Delivered (List.map_filter (channel_delivery config) (channels config)),
               if limiting then updateRateLimitCache cache data t_set t_cutoff else cache))"
  by (simp add: sendAdminNotification_def sendAdminNotification_begin_def
      sendAdminNotification_end_def rate_limiting_def Let_def)






lemma length_sendAll: "length (fst (sendAll config cache calls)) = length calls"
proof (induction calls arbitrary: cache)
  case Nil
  then show ?case by simp
next
  case (Cons c cs)
  obtain out cache1 where step:
    "sendAdminNotification cache (n_data c) config (n_check c) (n_set c) (n_cutoff c) = (out, cache1)"
    by (cases "sendAdminNotification cache (n_data c) config (n_check c) (n_set c) (n_cutoff c)")
  have "fst (sendAll config cache (c # cs)) = out # fst (sendAll config cache1 cs)"
    using step by (simp split: prod.splits)
  then show ?case using Cons.IH[of cache1] by simp
qed



subsection \<open>Calls that may overlap\<close>











subsection \<open>A window longer than the clean-up horizon\<close>

lemma sendAll_append:
  "sendAll config cache (xs @ ys) =
     (fst (sendAll config cache xs) @ fst (sendAll config (snd (sendAll config cache xs)) ys),
      snd (sendAll config (snd (sendAll config cache xs)) ys))"
  by (induction xs arbitrary: cache) (auto split: prod.splits)

lemma Map_set_fresh: "k \<notin> fst ` set c \<Longrightarrow> Map_set k v c = c @ [(k, v)]"
  by (induction c) auto

lemma flood_key_eq:
  "cache_key (n_data (flood_call a t)) = cache_key (n_data (flood_call b t')) \<longleftrightarrow> a = b"
  by (simp add: flood_call_def cache_key_def)

lemma replicate_x_inj: "replicate i (CHR ''x'') = replicate j (CHR ''x'') \<Longrightarrow> i = j"
  by (metis length_replicate)

lemma replicate_x_not_k: "''k'' \<noteq> replicate i (CHR ''x'')"
  by (cases i) auto

lemma replicate_x_not_z: "''z'' \<noteq> replicate i (CHR ''x'')"
  by (cases i) auto

lemma flood_cache_keys:
  "fst ` set (flood_cache n) = (\<lambda>i. cache_key (n_data (flood_call (replicate i CHR ''x'') 1))) ` {0..<n}"
  by (auto simp: flood_cache_def image_image)

lemma flood_cache_fresh_x:
  "cache_key (n_data (flood_call (replicate n CHR ''x'') t)) \<notin> fst ` set (flood_cache n)"
  unfolding flood_cache_keys using replicate_x_inj by (auto simp: flood_key_eq)

lemma flood_cache_fresh_k:
  "cache_key (n_data (flood_call ''k'' t)) \<notin> fst ` set (flood_cache n)"
  unfolding flood_cache_keys by (auto simp: flood_key_eq replicate_x_not_k)

lemma flood_cache_fresh_z:
  "cache_key (n_data (flood_call ''z'' t)) \<notin> fst ` set (flood_cache n)"
  unfolding flood_cache_keys by (auto simp: flood_key_eq replicate_x_not_z)

lemma map_of_fresh: "k \<notin> fst ` set c \<Longrightarrow> map_of c k = None"
  by (simp add: map_of_eq_None_iff)

lemma send_fresh:
  assumes "cache_key (n_data c) \<notin> fst ` set cache" "data_severity (n_data c) = HIGH"
  shows "sendAdminNotification cache (n_data c) long_window_config (n_check c) (n_set c) (n_cutoff c)
     = (Delivered [DatabaseInserted, ConsoleLogged],
        if length cache \<ge> 1000
        then filter (\<lambda>(key, timestamp). \<not> timestamp < n_cutoff c - 86400000)
               (cache @ [(cache_key (n_data c), n_set c)])
        else cache @ [(cache_key (n_data c), n_set c)])"
  using assms
  by (simp add: sendAdminNotification_unfold long_window_config_def DEFAULT_CONFIG_def isRateLimited_def
      map_of_fresh updateRateLimitCache_def Map_set_fresh List.map_filter_def Let_def)

lemma flood_phase1:
  "n \<le> 1000 \<Longrightarrow>
   sendAll long_window_config [] (map (\<lambda>i. flood_call (replicate i CHR ''x'') 1) [0..<n])
     = (replicate n (Delivered [DatabaseInserted, ConsoleLogged]), flood_cache n)"
proof (induction n)
  case 0
  then show ?case by (simp add: flood_cache_def)
next
  case (Suc n)
  let ?c = "flood_call (replicate n CHR ''x'') 1"
  have IH: "sendAll long_window_config [] (map (\<lambda>i. flood_call (replicate i CHR ''x'') 1) [0..<n])
     = (replicate n (Delivered [DatabaseInserted, ConsoleLogged]), flood_cache n)"
    using Suc by simp
  have len: "length (flood_cache n) = n" by (simp add: flood_cache_def)
  have step: "sendAdminNotification (flood_cache n) (n_data ?c) long_window_config (n_check ?c) (n_set ?c) (n_cutoff ?c)
     = (Delivered [DatabaseInserted, ConsoleLogged], flood_cache (Suc n))"
    using send_fresh[of ?c "flood_cache n"] flood_cache_fresh_x[of n 1] Suc.prems len
    by (simp add: flood_call_def flood_cache_def)
  have "sendAll long_window_config (flood_cache n) [?c]
     = ([Delivered [DatabaseInserted, ConsoleLogged]], flood_cache (Suc n))"
    using step by simp
  then show ?case
    using IH by (simp add: sendAll_append replicate_append_same del: sendAll.simps)
qed


lemma filter_flood_cache:
  "filter (\<lambda>(key, timestamp). \<not> timestamp < cutoff) (flood_cache n)
     = (if 1 < cutoff then [] else flood_cache n)"
  by (simp add: flood_cache_def filter_map comp_def)

lemma flood_phase2:
  "sendAll long_window_config (flood_cache 1000)
      [flood_call ''k'' 1, flood_call ''z'' 86400002, flood_call ''k'' 86400003]
     = ([Delivered [DatabaseInserted, ConsoleLogged], Delivered [DatabaseInserted, ConsoleLogged],
         Delivered [DatabaseInserted, ConsoleLogged]],
        [(cache_key (n_data (flood_call ''z'' 86400002)), 86400002),
         (cache_key (n_data (flood_call ''k'' 86400003)), 86400003)])"
proof -
  let ?D = "Delivered [DatabaseInserted, ConsoleLogged]"
  let ?k = "cache_key (n_data (flood_call ''k'' 1))"
  let ?z = "cache_key (n_data (flood_call ''z'' 86400002))"
  have len: "length (flood_cache 1000) = 1000" by (simp add: flood_cache_def)
  have kk: "cache_key (n_data (flood_call ''k'' 86400003)) = ?k"
    by (simp add: flood_key_eq)
  have s1: "sendAdminNotification (flood_cache 1000) (n_data (flood_call ''k'' 1)) long_window_config
              (n_check (flood_call ''k'' 1)) (n_set (flood_call ''k'' 1)) (n_cutoff (flood_call ''k'' 1))
            = (?D, flood_cache 1000 @ [(?k, 1)])"
    using send_fresh[of "flood_call ''k'' 1" "flood_cache 1000"] flood_cache_fresh_k[of 1 1000] len
    by (simp add: filter_flood_cache) (simp add: flood_call_def)
  have fz: "?z \<notin> fst ` set (flood_cache 1000 @ [(?k, 1)])"
    using flood_cache_fresh_z[of 86400002 1000] by (simp add: flood_key_eq)
  have s2: "sendAdminNotification (flood_cache 1000 @ [(?k, 1)]) (n_data (flood_call ''z'' 86400002)) long_window_config
              (n_check (flood_call ''z'' 86400002)) (n_set (flood_call ''z'' 86400002))
              (n_cutoff (flood_call ''z'' 86400002))
            = (?D, [(?z, 86400002)])"
    using send_fresh[of "flood_call ''z'' 86400002" "flood_cache 1000 @ [(?k, 1)]"] fz len
    by (simp add: filter_flood_cache) (simp add: flood_call_def)
  have fk: "?k \<notin> fst ` set [(?z, 86400002::real)]"
    by (simp add: flood_key_eq)
  have s3: "sendAdminNotification [(?z, 86400002)] (n_data (flood_call ''k'' 86400003)) long_window_config
              (n_check (flood_call ''k'' 86400003)) (n_set (flood_call ''k'' 86400003))
              (n_cutoff (flood_call ''k'' 86400003))
            = (?D, [(?z, 86400002), (?k, 86400003)])"
    using send_fresh[of "flood_call ''k'' 86400003" "[(?z, 86400002)]"] fk kk
    by (simp add: flood_call_def)
  show ?thesis
    using s1 s2 s3 kk by simp
qed

lemma clock_from_earlier: "clock_from t ys \<Longrightarrow> t' \<le> t \<Longrightarrow> clock_from t' ys"
  by (cases ys) auto

lemma clock_from_ones:
  "\<forall>c \<in> set xs. n_check c = 1 \<and> n_set c = 1 \<and> n_cutoff c = 1 \<Longrightarrow> t \<le> 1 \<Longrightarrow>
   clock_from 1 ys \<Longrightarrow> clock_from t (xs @ ys)"
  by (induction xs arbitrary: t) (auto intro: clock_from_earlier)

text \<open>
  Why the window is taken to be at most 24 hours: the clean-up of the cache deletes
  entries older than 24 hours once it holds more than 1000 keys, whatever the window is.
  With a window of 1500 minutes and the calls of \<open>flood\<close>, made one after the other from
  the empty cache, the notification for \<open>k\<close> at reading 1 and the one at reading 86400003
  both reach the channels, 86400002 ms apart, inside the window of 90000000 ms.
\<close>

lemma eviction_inside_long_window:
  "clock_from 0 flood
   \<and> is_Delivered (fst (sendAll long_window_config [] flood) ! 1000)
   \<and> is_Delivered (fst (sendAll long_window_config [] flood) ! 1002)
   \<and> cache_key (n_data (flood ! 1000)) = cache_key (n_data (flood ! 1002))
   \<and> rateLimitMinutes long_window_config = Some 1500
   \<and> n_check (flood ! 1002) - n_set (flood ! 1000) < 1500 * 60 * 1000"
proof -
  let ?xs = "map (\<lambda>i. flood_call (replicate i CHR ''x'') 1) [0..<1000]"
  let ?ys = "[flood_call ''k'' 1, flood_call ''z'' 86400002, flood_call ''k'' 86400003]"
  let ?D = "Delivered [DatabaseInserted, ConsoleLogged]"
  have len: "length ?xs = 1000" by simp
  have outs: "fst (sendAll long_window_config [] flood) = replicate 1000 ?D @ [?D, ?D, ?D]"
    unfolding flood_def sendAll_append using flood_phase1[of 1000] flood_phase2
    by (simp del: sendAll.simps)
  have n0: "flood ! 1000 = flood_call ''k'' 1"
    unfolding flood_def using nth_append_length[of ?xs "flood_call ''k'' 1"] len by simp
  have n2: "flood ! 1002 = flood_call ''k'' 86400003"
    unfolding flood_def using nth_append_length_plus[of ?xs ?ys 2] len by simp
  have o0: "fst (sendAll long_window_config [] flood) ! 1000 = ?D"
    unfolding outs using nth_append_length[of "replicate 1000 ?D" ?D] by simp
  have o2: "fst (sendAll long_window_config [] flood) ! 1002 = ?D"
    unfolding outs using nth_append_length_plus[of "replicate 1000 ?D" "[?D, ?D, ?D]" 2] by simp
  have clk: "clock_from 0 flood"
    unfolding flood_def by (rule clock_from_ones) (auto simp: flood_call_def)
  show ?thesis
    using clk by (simp add: o0 o2 n0 n2 flood_key_eq) (simp add: flood_call_def long_window_config_def)
qed

section \<open>Properties of the webhook endpoint\<close>

lemma error_status_not_200: "fst (error_status c) \<noteq> 200"
  by (cases c) simp_all

lemma error_status_range:
  "fst (error_status c) \<in> {400, 401, 402, 429, 500, 502, 503}"
  by (cases c) simp_all

lemma createErrorResponse_not_200: "res_status (createErrorResponse error opn) \<noteq> 200"
  by (simp add: createErrorResponse_def Let_def error_status_not_200)

lemma serve_catch_response: "fst (serve_catch error eventId st) = createErrorResponse error ''stripe_webhook''"
  by (simp add: serve_catch_def Let_def)

lemma serve_catch_processed:
  "processedEvents (snd (serve_catch error eventId st)) =
     (if eventId \<noteq> ''unknown'' then processedEvents st - {eventId} else processedEvents st)"
  by (simp add: serve_catch_def Let_def)

lemma handlers_throw:
  "fst (handleCheckoutSessionCompleted ev db) = Inl err \<longleftrightarrow> event_object ev = None \<and> err = null_object_error"
  "fst (handlePaymentIntentSucceeded ev db) = Inl err \<longleftrightarrow> event_object ev = None \<and> err = null_object_error"
  "fst (handlePaymentIntentFailed ev db) = Inl err \<longleftrightarrow> event_object ev = None \<and> err = null_object_error"
  "fst (handleSubscriptionUpdated ev db) = Inl err \<longleftrightarrow> event_object ev = None \<and> err = null_object_error"
  "fst (handleSubscriptionDeleted ev db) = Inl err \<longleftrightarrow> event_object ev = None \<and> err = null_object_error"
  "fst (handleInvoicePaymentSucceeded ev db) = Inl err \<longleftrightarrow> event_object ev = None \<and> err = null_object_error"
  "fst (handleInvoicePaymentFailed ev db) = Inl err \<longleftrightarrow> event_object ev = None \<and> err = null_object_error"
  by (auto simp: handleCheckoutSessionCompleted_def handlePaymentIntentSucceeded_def
      handlePaymentIntentFailed_def handleSubscriptionUpdated_def handleSubscriptionDeleted_def
      handleInvoicePaymentSucceeded_def handleInvoicePaymentFailed_def Let_def
      split: option.splits sum.splits prod.splits if_splits)

lemma dispatch_throws:
  "dispatch ev db = Some (Inl err, notes) \<Longrightarrow> event_object ev = None \<and> err = null_object_error"
  using handlers_throw[of ev db err]
  by (auto simp: dispatch_def Let_def split: if_splits)


lemma delivers_cases:
  assumes "delivers sec ce d ev"
  obtains body signature where "req_method (d_request d) = ''POST''" "sec \<noteq> []"
    "req_text (d_request d) = Inr body" "req_signature (d_request d) = Some signature"
    "signature \<noteq> []" "ce body signature sec = Inr ev"
  using assms by (auto simp: delivers_def split: sum.splits option.splits)

lemma serve_processed:
  assumes "delivers sec ce d ev" and "event_id ev \<in> processedEvents st"
  shows "serve sec ce st (d_request d) (d_db d) =
     (\<lparr>res_status = 200, res_body = Ack True False (event_id ev) (event_type ev)\<rparr>, st, None)"
  using assms(1)
proof (rule delivers_cases)
  fix body signature
  assume "req_method (d_request d) = ''POST''" "sec \<noteq> []"
    "req_text (d_request d) = Inr body" "req_signature (d_request d) = Some signature"
    "signature \<noteq> []" "ce body signature sec = Inr ev"
  then show ?thesis using assms(2) by (simp add: serve_def Let_def)
qed

lemma serve_fresh:
  assumes "delivers sec ce d ev" and "event_id ev \<notin> processedEvents st"
  shows "dispatch ev (d_db d) = None \<Longrightarrow>
           fst (serve sec ce st (d_request d) (d_db d)) =
             \<lparr>res_status = 200, res_body = Ack True False (event_id ev) (event_type ev)\<rparr>
           \<and> processedEvents (fst (snd (serve sec ce st (d_request d) (d_db d))))
               = insert (event_id ev) (processedEvents st)
           \<and> snd (snd (serve sec ce st (d_request d) (d_db d))) = None"
    and "dispatch ev (d_db d) = Some (Inr b, notes) \<Longrightarrow>
           fst (serve sec ce st (d_request d) (d_db d)) =
             \<lparr>res_status = 200, res_body = Ack True b (event_id ev) (event_type ev)\<rparr>
           \<and> processedEvents (fst (snd (serve sec ce st (d_request d) (d_db d))))
               = insert (event_id ev) (processedEvents st)
           \<and> snd (snd (serve sec ce st (d_request d) (d_db d))) = Some (Inr b)"
    and "dispatch ev (d_db d) = Some (Inl err, notes) \<Longrightarrow>
           fst (serve sec ce st (d_request d) (d_db d)) = createErrorResponse err ''stripe_webhook''
           \<and> processedEvents (fst (snd (serve sec ce st (d_request d) (d_db d))))
               = (if event_id ev \<noteq> ''unknown'' then processedEvents st
                  else insert (event_id ev) (processedEvents st))
           \<and> snd (snd (serve sec ce st (d_request d) (d_db d))) = Some (Inl err)"
proof -
  obtain body signature where h: "req_method (d_request d) = ''POST''" "sec \<noteq> []"
    "req_text (d_request d) = Inr body" "req_signature (d_request d) = Some signature"
    "signature \<noteq> []" "ce body signature sec = Inr ev"
    using assms(1) by (rule delivers_cases)
  show "dispatch ev (d_db d) = None \<Longrightarrow>
           fst (serve sec ce st (d_request d) (d_db d)) =
             \<lparr>res_status = 200, res_body = Ack True False (event_id ev) (event_type ev)\<rparr>
           \<and> processedEvents (fst (snd (serve sec ce st (d_request d) (d_db d))))
               = insert (event_id ev) (processedEvents st)
           \<and> snd (snd (serve sec ce st (d_request d) (d_db d))) = None"
    using h assms(2) by (simp add: serve_def Let_def)
  show "dispatch ev (d_db d) = Some (Inr b, notes) \<Longrightarrow>
           fst (serve sec ce st (d_request d) (d_db d)) =
             \<lparr>res_status = 200, res_body = Ack True b (event_id ev) (event_type ev)\<rparr>
           \<and> processedEvents (fst (snd (serve sec ce st (d_request d) (d_db d))))
               = insert (event_id ev) (processedEvents st)
           \<and> snd (snd (serve sec ce st (d_request d) (d_db d))) = Some (Inr b)"
    using h assms(2) by (simp add: serve_def Let_def)
  show "dispatch ev (d_db d) = Some (Inl err, notes) \<Longrightarrow>
           fst (serve sec ce st (d_request d) (d_db d)) = createErrorResponse err ''stripe_webhook''
           \<and> processedEvents (fst (snd (serve sec ce st (d_request d) (d_db d))))
               = (if event_id ev \<noteq> ''unknown'' then processedEvents st
                  else insert (event_id ev) (processedEvents st))
           \<and> snd (snd (serve sec ce st (d_request d) (d_db d))) = Some (Inl err)"
    using h assms(2) by (auto simp add: serve_def Let_def serve_catch_def)
qed


lemma dispatch_cases:
  obtains (none) "dispatch ev db = None"
  | (returned) b nts where "dispatch ev db = Some (Inr b, nts)"
  | (threw) err nts where "dispatch ev db = Some (Inl err, nts)"
proof (cases "dispatch ev db")
  case None
  then show ?thesis by (rule none)
next
  case (Some r)
  obtain x nts where r: "r = (x, nts)" by (cases r)
  show ?thesis
  proof (cases x)
    case (Inl err)
    then show ?thesis using Some r threw by simp
  next
    case (Inr b)
    then show ?thesis using Some r returned by simp
  qed
qed

text \<open>One delivery of a signed event: what the response tells about the claim afterwards.\<close>

lemma serve_claim_after:
  assumes d: "delivers sec ce d ev"
  shows "res_status (fst (serve sec ce st (d_request d) (d_db d))) = 200
           \<or> handler_returned (snd (snd (serve sec ce st (d_request d) (d_db d))))
         \<Longrightarrow> event_id ev \<in> processedEvents (fst (snd (serve sec ce st (d_request d) (d_db d))))"
proof (cases "event_id ev \<in> processedEvents st")
  case True
  then show "res_status (fst (serve sec ce st (d_request d) (d_db d))) = 200
           \<or> handler_returned (snd (snd (serve sec ce st (d_request d) (d_db d))))
         \<Longrightarrow> event_id ev \<in> processedEvents (fst (snd (serve sec ce st (d_request d) (d_db d))))"
    using serve_processed[OF d True] by simp
next
  case False
  assume h: "res_status (fst (serve sec ce st (d_request d) (d_db d))) = 200
           \<or> handler_returned (snd (snd (serve sec ce st (d_request d) (d_db d))))"
  show "event_id ev \<in> processedEvents (fst (snd (serve sec ce st (d_request d) (d_db d))))"
  proof (cases ev "d_db d" rule: dispatch_cases)
    case none
    then show ?thesis using serve_fresh(1)[OF d False] by simp
  next
    case (returned b nts)
    then show ?thesis using serve_fresh(2)[OF d False] by simp
  next
    case (threw err nts)
    then show ?thesis
      using serve_fresh(3)[OF d False threw] h by (simp add: createErrorResponse_not_200)
  qed
qed

lemma serve_all_Cons:
  "fst (serve_all sec ce st (d # ds)) =
     (fst (serve sec ce st (d_request d) (d_db d)), snd (snd (serve sec ce st (d_request d) (d_db d))))
       # fst (serve_all sec ce (fst (snd (serve sec ce st (d_request d) (d_db d)))) ds)"
  by (simp split: prod.splits)

lemma length_serve_all: "length (fst (serve_all sec ce st ds)) = length ds"
  by (induction ds arbitrary: st) (simp_all add: serve_all_Cons del: serve_all.simps(2))

lemma serve_all_claimed:
  shows "e \<in> processedEvents st \<Longrightarrow> \<forall>d \<in> set ds. \<exists>ev. delivers sec ce d ev \<and> event_id ev = e \<Longrightarrow>
   (\<forall>k < length ds. res_status (fst (fst (serve_all sec ce st ds) ! k)) = 200
        \<and> (\<exists>ty. res_body (fst (fst (serve_all sec ce st ds) ! k)) = Ack True False e ty)
        \<and> snd (fst (serve_all sec ce st ds) ! k) = None)"
proof (induction ds arbitrary: st)
  case Nil
  then show ?case by simp
next
  case (Cons d ds)
  obtain ev where ev: "delivers sec ce d ev" "event_id ev = e" using Cons.prems(2) by auto
  have s: "serve sec ce st (d_request d) (d_db d) =
     (\<lparr>res_status = 200, res_body = Ack True False e (event_type ev)\<rparr>, st, None)"
    using serve_processed[OF ev(1)] Cons.prems(1) ev(2) by simp
  have rest: "\<forall>k < length ds. res_status (fst (fst (serve_all sec ce st ds) ! k)) = 200
        \<and> (\<exists>ty. res_body (fst (fst (serve_all sec ce st ds) ! k)) = Ack True False e ty)
        \<and> snd (fst (serve_all sec ce st ds) ! k) = None"
    using Cons.IH[OF Cons.prems(1)] Cons.prems(2) by simp
  show ?case
  proof (intro allI impI)
    fix k assume "k < length (d # ds)"
    then show "res_status (fst (fst (serve_all sec ce st (d # ds)) ! k)) = 200
        \<and> (\<exists>ty. res_body (fst (fst (serve_all sec ce st (d # ds)) ! k)) = Ack True False e ty)
        \<and> snd (fst (serve_all sec ce st (d # ds)) ! k) = None"
      unfolding serve_all_Cons s using rest by (cases k) simp_all
  qed
qed


lemma delivers_post: "delivers example_secret (accept_event ev) (post_delivery db) ev"
  by (simp add: delivers_def post_delivery_def accept_event_def example_secret_def)

lemma serve_evt_payment_first:
  "serve example_secret (accept_event evt_payment) new_gateway
      (d_request (post_delivery db_ok)) (d_db (post_delivery db_ok))
   = (\<lparr>res_status = 200, res_body = Ack True True ''evt_1'' ''payment_intent.succeeded''\<rparr>,
      \<lparr>processedEvents = {''evt_1''}, retryAttempts = [''evt_1'' \<mapsto> Suc 0], notifications = []\<rparr>,
      Some (Inr True))"
  by (simp add: serve_def post_delivery_def accept_event_def example_secret_def new_gateway_def
      evt_payment_def dispatch_def handlePaymentIntentSucceeded_def db_ok_def Let_def)

lemma serve_evt_null_object:
  "''evt_2'' \<notin> processedEvents st \<Longrightarrow>
   serve example_secret (accept_event evt_null_object) st
      (d_request (post_delivery db)) (d_db (post_delivery db))
   = (\<lparr>res_status = 500,
       res_body = ErrorResponse ''Internal server error'' UNKNOWN ''stripe_webhook''\<rparr>,
      st\<lparr>processedEvents := processedEvents st,
         retryAttempts := (retryAttempts st)(''evt_2'' \<mapsto>
            (case retryAttempts st ''evt_2'' of None \<Rightarrow> 0 | Some n \<Rightarrow> n) + 1),
         notifications := notifications st
            @ [NotifyWebhookFailure ''evt_2'', NotifyCriticalError ''evt_2'']\<rparr>,
      Some (Inl null_object_error))"
proof -
  have f: "\<not> sublist ''fetch'' ''Cannot read properties of null''" by code_simp
  assume "''evt_2'' \<notin> processedEvents st"
  then show ?thesis
    by (simp add: serve_def post_delivery_def accept_event_def example_secret_def
      evt_null_object_def dispatch_def handleInvoicePaymentFailed_def Let_def serve_catch_def
      createErrorResponse_def null_object_error_def f)
qed

lemma dispatch_null_object:
  "event_object ev = None \<Longrightarrow> dispatch ev db \<noteq> None \<Longrightarrow>
   dispatch ev db = Some (Inl null_object_error, [])"
  by (auto simp: dispatch_def Let_def handleCheckoutSessionCompleted_def
      handlePaymentIntentSucceeded_def handlePaymentIntentFailed_def handleSubscriptionUpdated_def
      handleSubscriptionDeleted_def handleInvoicePaymentSucceeded_def handleInvoicePaymentFailed_def
      split: if_splits)

lemma serve_run:
  assumes "delivers sec ce d ev" and "event_id ev \<notin> processedEvents st"
  shows "snd (snd (serve sec ce st (d_request d) (d_db d))) = map_option fst (dispatch ev (d_db d))"
proof (cases ev "d_db d" rule: dispatch_cases)
  case none
  then show ?thesis using serve_fresh(1)[OF assms] by simp
next
  case (returned b nts)
  then show ?thesis using serve_fresh(2)[OF assms returned] by simp
next
  case (threw err nts)
  then show ?thesis using serve_fresh(3)[OF assms threw] by simp
qed

lemma handler_threw_map_fst:
  "handler_threw (map_option fst r) \<longleftrightarrow> (\<exists>err nts. r = Some (Inl err, nts))"
proof (cases r)
  case None
  then show ?thesis by simp
next
  case (Some p)
  obtain x nts where "p = (x, nts)" by (cases p)
  then show ?thesis using Some by (cases x) auto
qed

text \<open>
  C2, as amended. For a delivery of a signed event whose id is not yet claimed: if an
  exception escapes the handler and the id is not the literal \<^verbatim>\<open>unknown\<close>, the id is not in
  \<^verbatim>\<open>processedEvents\<close> afterwards, and a redelivery of an event with that id is dispatched
  to its handler again (the id \<^verbatim>\<open>unknown\<close> stays claimed); if no exception escapes (the handler returned true or false, or
  the type has no handler) the id stays claimed. An exception escapes exactly when the
  event's object is \<^verbatim>\<open>null\<close> and its type has a handler: a failure of a database call is
  caught by the handler, which notifies, returns false and so keeps the claim.
\<close>

theorem serve_claim_release:
  assumes "delivers sec ce d ev" and "event_id ev \<notin> processedEvents st"
  shows "(let r = serve sec ce st (d_request d) (d_db d); st' = fst (snd r); run = snd (snd r)
          in (handler_threw run \<and> event_id ev \<noteq> ''unknown'' \<longrightarrow>
                event_id ev \<notin> processedEvents st'
                \<and> (\<forall>d' ev'. delivers sec ce d' ev' \<and> event_id ev' = event_id ev \<longrightarrow>
                      snd (snd (serve sec ce st' (d_request d') (d_db d')))
                        = map_option fst (dispatch ev' (d_db d'))))
           \<and> (handler_threw run \<and> event_id ev = ''unknown'' \<longrightarrow>
                event_id ev \<in> processedEvents st')
           \<and> (\<not> handler_threw run \<longrightarrow> event_id ev \<in> processedEvents st')
           \<and> (handler_threw run \<longleftrightarrow> event_object ev = None \<and> dispatch ev (d_db d) \<noteq> None))"
proof -
  define st' where "st' = fst (snd (serve sec ce st (d_request d) (d_db d)))"
  define run where "run = snd (snd (serve sec ce st (d_request d) (d_db d)))"
  have run: "run = map_option fst (dispatch ev (d_db d))"
    unfolding run_def using assms by (rule serve_run)
  have c3: "handler_threw run \<longleftrightarrow> event_object ev = None \<and> dispatch ev (d_db d) \<noteq> None"
    unfolding run handler_threw_map_fst
    using dispatch_throws[of ev "d_db d"] dispatch_null_object[of ev "d_db d"] by blast
  have c2: "event_id ev \<in> processedEvents st'" if "\<not> handler_threw run"
  proof (cases ev "d_db d" rule: dispatch_cases)
    case none
    then show ?thesis unfolding st'_def using serve_fresh(1)[OF assms] by simp
  next
    case (returned b nts)
    then show ?thesis unfolding st'_def using serve_fresh(2)[OF assms returned] by simp
  next
    case (threw err nts)
    then show ?thesis using that run by simp
  qed
  have c1a: "event_id ev \<notin> processedEvents st'"
    if h: "handler_threw run" "event_id ev \<noteq> ''unknown''"
  proof -
    obtain err nts where t: "dispatch ev (d_db d) = Some (Inl err, nts)"
      using h(1) unfolding run handler_threw_map_fst by blast
    show ?thesis unfolding st'_def using serve_fresh(3)[OF assms t] h(2) assms(2) by simp
  qed
  have c1c: "event_id ev \<in> processedEvents st'"
    if h: "handler_threw run" "event_id ev = ''unknown''"
  proof -
    obtain err nts where t: "dispatch ev (d_db d) = Some (Inl err, nts)"
      using h(1) unfolding run handler_threw_map_fst by blast
    show ?thesis unfolding st'_def using serve_fresh(3)[OF assms t] h(2) by simp
  qed
  have c1b: "snd (snd (serve sec ce st' (d_request d') (d_db d')))
                        = map_option fst (dispatch ev' (d_db d'))"
    if "handler_threw run" "event_id ev \<noteq> ''unknown''"
      "delivers sec ce d' ev'" "event_id ev' = event_id ev" for d' ev'
    using serve_run[OF that(3), of st'] c1a[OF that(1,2)] that(4) by simp
  show ?thesis
    unfolding Let_def st'_def[symmetric] run_def[symmetric]
    using c1a c1b c1c c2 c3 by blast
qed


theorem serve_claim_release_witness:
  "(let r = serve example_secret (accept_event evt_null_object) new_gateway
              (d_request (post_delivery db_ok)) (d_db (post_delivery db_ok))
    in snd (snd r) = Some (Inl null_object_error)
       \<and> ''evt_2'' \<notin> processedEvents (fst (snd r))
       \<and> snd (snd (serve example_secret (accept_event evt_null_object) (fst (snd r))
              (d_request (post_delivery db_ok)) (d_db (post_delivery db_ok))))
           = Some (Inl null_object_error))
   \<and> (let r = serve example_secret (accept_event evt_payment) new_gateway
              (d_request (post_delivery db_ok)) (d_db (post_delivery db_ok))
      in snd (snd r) = Some (Inr True) \<and> ''evt_1'' \<in> processedEvents (fst (snd r)))"
proof -
  have "''evt_2'' \<noteq> ''unknown''" by simp
  have n: "event_id evt_null_object = ''evt_2''" "event_object evt_null_object = None"
    by (simp_all add: evt_null_object_def)
  have p: "event_id evt_payment = ''evt_1''" by (simp add: evt_payment_def)
  have dn: "dispatch evt_null_object (d_db (post_delivery db_ok)) = Some (Inl null_object_error, [])"
    by (simp add: dispatch_def evt_null_object_def handleInvoicePaymentFailed_def)
  have fresh: "event_id evt_null_object \<notin> processedEvents new_gateway"
    "event_id evt_payment \<notin> processedEvents new_gateway"
    by (simp_all add: new_gateway_def)
  show ?thesis
    using serve_claim_release[OF delivers_post[of evt_null_object db_ok] fresh(1)]
      serve_claim_release[OF delivers_post[of evt_payment db_ok] fresh(2)]
      delivers_post[of evt_null_object db_ok]
    unfolding Let_def n p
    by (simp add: serve_evt_null_object new_gateway_def dn serve_evt_payment_first[unfolded new_gateway_def])
qed

text \<open>
  C2 as stated fails for a failure that the handler catches: when the customer upsert of
  \<^verbatim>\<open>handleCheckoutSessionCompleted\<close> throws, the handler notifies and returns false, the
  delivery is answered 200 with \<open>processed = false\<close> and the id stays in
  \<^verbatim>\<open>processedEvents\<close>; a redelivery with the database working again is answered as
  already processed, without the handler being called.
\<close>

theorem caught_failure_keeps_claim_counterexample:
  "serve example_secret (accept_event evt_checkout) new_gateway
      (d_request (post_delivery db_down)) (d_db (post_delivery db_down))
     = (\<lparr>res_status = 200, res_body = Ack True False ''evt_3'' ''checkout.session.completed''\<rparr>,
        \<lparr>processedEvents = {''evt_3''}, retryAttempts = [''evt_3'' \<mapsto> 1],
         notifications = [NotifySubscriptionFailure ''evt_3'']\<rparr>,
        Some (Inr False))
   \<and> serve example_secret (accept_event evt_checkout)
        \<lparr>processedEvents = {''evt_3''}, retryAttempts = [''evt_3'' \<mapsto> 1],
         notifications = [NotifySubscriptionFailure ''evt_3'']\<rparr>
        (d_request (post_delivery db_ok)) (d_db (post_delivery db_ok))
     = (\<lparr>res_status = 200, res_body = Ack True False ''evt_3'' ''checkout.session.completed''\<rparr>,
        \<lparr>processedEvents = {''evt_3''}, retryAttempts = [''evt_3'' \<mapsto> 1],
         notifications = [NotifySubscriptionFailure ''evt_3'']\<rparr>,
        None)"
  by (simp add: serve_def post_delivery_def accept_event_def example_secret_def new_gateway_def
      evt_checkout_def dispatch_def handleCheckoutSessionCompleted_def db_ok_def db_down_def Let_def)

lemma serve_status_range:
  "res_status (fst (serve sec ce st req db)) \<in> {200, 400, 401, 402, 405, 429, 500, 502, 503}"
proof -
  have e: "res_status (createErrorResponse error opn) \<in> {200, 400, 401, 402, 405, 429, 500, 502, 503}"
    for error opn
    using error_status_range[of "classifyError error"] by (auto simp: createErrorResponse_def Let_def)
  show ?thesis
    using e
    by (auto simp: serve_def Let_def serve_catch_def
        split: sum.splits option.splits prod.splits if_splits)
qed

lemma serve_not_threw:
  assumes d: "delivers sec ce d ev"
    and nt: "\<not> handler_threw (snd (snd (serve sec ce st (d_request d) (d_db d))))"
  shows "res_status (fst (serve sec ce st (d_request d) (d_db d))) = 200
       \<and> (\<exists>processed. res_body (fst (serve sec ce st (d_request d) (d_db d)))
              = Ack True processed (event_id ev) (event_type ev))"
proof -
  have "\<exists>processed. fst (serve sec ce st (d_request d) (d_db d))
      = \<lparr>res_status = 200, res_body = Ack True processed (event_id ev) (event_type ev)\<rparr>"
  proof (cases "event_id ev \<in> processedEvents st")
    case True
    have "fst (serve sec ce st (d_request d) (d_db d))
      = \<lparr>res_status = 200, res_body = Ack True False (event_id ev) (event_type ev)\<rparr>"
      using serve_processed[OF d True] by simp
    then show ?thesis by (rule exI)
  next
    case False
    show ?thesis
    proof (cases ev "d_db d" rule: dispatch_cases)
      case none
      have "fst (serve sec ce st (d_request d) (d_db d))
        = \<lparr>res_status = 200, res_body = Ack True False (event_id ev) (event_type ev)\<rparr>"
        using serve_fresh(1)[OF d False none] by simp
      then show ?thesis by (rule exI)
    next
      case (returned b nts)
      have "fst (serve sec ce st (d_request d) (d_db d))
        = \<lparr>res_status = 200, res_body = Ack True b (event_id ev) (event_type ev)\<rparr>"
        using serve_fresh(2)[OF d False returned] by simp
      then show ?thesis by (rule exI)
    next
      case (threw err nts)
      have "snd (snd (serve sec ce st (d_request d) (d_db d))) = Some (Inl err)"
        using serve_fresh(3)[OF d False threw] by simp
      then show ?thesis using nt by simp
    qed
  qed
  then obtain processed where "fst (serve sec ce st (d_request d) (d_db d))
      = \<lparr>res_status = 200, res_body = Ack True processed (event_id ev) (event_type ev)\<rparr>"
    by (rule exE)
  then show ?thesis by simp
qed

lemma serve_object_not_threw:
  assumes d: "delivers sec ce d ev" and obj: "event_object ev \<noteq> None"
  shows "\<not> handler_threw (snd (snd (serve sec ce st (d_request d) (d_db d))))"
proof (cases "event_id ev \<in> processedEvents st")
  case True
  have "snd (snd (serve sec ce st (d_request d) (d_db d))) = None"
    using serve_processed[OF d True] by simp
  then show ?thesis by simp
next
  case False
  have run: "snd (snd (serve sec ce st (d_request d) (d_db d))) = map_option fst (dispatch ev (d_db d))"
    using d False by (rule serve_run)
  show ?thesis
  proof
    assume "handler_threw (snd (snd (serve sec ce st (d_request d) (d_db d))))"
    then obtain err nts where "dispatch ev (d_db d) = Some (Inl err, nts)"
      unfolding run handler_threw_map_fst by (elim exE)
    then have "event_object ev = None" by (rule dispatch_throws[THEN conjunct1])
    then show False using obj by simp
  qed
qed

text \<open>
  C1. For every sequence of deliveries that carry signed events with the same id \<open>e\<close>,
  each with an object as the type \<^verbatim>\<open>Stripe.Event\<close> has it, handled one after the other
  from any state of the module: a handler is called for at most one delivery; every
  delivery after the first is answered HTTP 200 with \<open>received = true\<close> and
  \<open>processed = false\<close>, without a handler being called; and the first is answered HTTP
  200 as well.
\<close>

theorem serve_idempotent:
  assumes "\<forall>d \<in> set ds. \<exists>ev. delivers sec ce d ev \<and> event_id ev = e \<and> event_object ev \<noteq> None"
  shows "length (filter (\<lambda>out. handler_called (snd out)) (fst (serve_all sec ce st ds))) \<le> 1
       \<and> (\<forall>j < length ds. 0 < j \<longrightarrow>
            res_status (fst (fst (serve_all sec ce st ds) ! j)) = 200
            \<and> (\<exists>ty. res_body (fst (fst (serve_all sec ce st ds) ! j)) = Ack True False e ty)
            \<and> snd (fst (serve_all sec ce st ds) ! j) = None)
       \<and> (\<forall>j < length ds. res_status (fst (fst (serve_all sec ce st ds) ! j)) = 200)"
proof (cases ds)
  case Nil
  then show ?thesis by simp
next
  case (Cons d ds')
  obtain ev where ev: "delivers sec ce d ev" "event_id ev = e" "event_object ev \<noteq> None"
    using assms Cons by auto
  define res where "res = fst (serve sec ce st (d_request d) (d_db d))"
  define st' where "st' = fst (snd (serve sec ce st (d_request d) (d_db d)))"
  define run where "run = snd (snd (serve sec ce st (d_request d) (d_db d)))"
  define outs' where "outs' = fst (serve_all sec ce st' ds')"
  have outs: "fst (serve_all sec ce st ds) = (res, run) # outs'"
    unfolding Cons serve_all_Cons res_def st'_def run_def outs'_def by simp
  have len: "length outs' = length ds'" unfolding outs'_def by (rule length_serve_all)
  have rest: "\<forall>d \<in> set ds'. \<exists>ev. delivers sec ce d ev \<and> event_id ev = e"
    using assms Cons by auto
  have nt: "\<not> handler_threw run"
    unfolding run_def using ev(1,3) by (rule serve_object_not_threw)
  have ok: "res_status res = 200"
    unfolding res_def using serve_not_threw[OF ev(1), of st] nt unfolding run_def by simp
  then have "e \<in> processedEvents st'"
    using serve_claim_after[OF ev(1), of st] ev(2) unfolding res_def run_def st'_def by simp
  then have skip: "\<forall>k < length ds'. res_status (fst (outs' ! k)) = 200
        \<and> (\<exists>ty. res_body (fst (outs' ! k)) = Ack True False e ty)
        \<and> snd (outs' ! k) = None"
    unfolding outs'_def using rest by (rule serve_all_claimed)
  have "\<forall>out \<in> set outs'. \<not> handler_called (snd out)"
  proof
    fix out assume "out \<in> set outs'"
    then obtain k where "k < length outs'" "out = outs' ! k" by (auto simp: in_set_conv_nth)
    then show "\<not> handler_called (snd out)" using skip len by simp
  qed
  then have none: "filter (\<lambda>out. handler_called (snd out)) outs' = []"
    by (simp add: filter_empty_conv)
  have c1: "length (filter (\<lambda>out. handler_called (snd out)) ((res, run) # outs')) \<le> 1"
    using none by simp
  have c2: "res_status (fst (((res, run) # outs') ! j)) = 200
            \<and> (\<exists>ty. res_body (fst (((res, run) # outs') ! j)) = Ack True False e ty)
            \<and> snd (((res, run) # outs') ! j) = None"
    if "j < length ds" "0 < j" for j
    using that skip Cons by (cases j) simp_all
  have c3: "res_status (fst (((res, run) # outs') ! j)) = 200" if "j < length ds" for j
    using that skip Cons ok by (cases j) simp_all
  show ?thesis unfolding outs using c1 c2 c3 by blast
qed

theorem serve_idempotent_witness:
  "map (\<lambda>out. (res_status (fst out), res_body (fst out), snd out))
     (fst (serve_all example_secret (accept_event evt_payment) new_gateway
        [post_delivery db_ok, post_delivery db_ok, post_delivery db_ok]))
   = [(200, Ack True True ''evt_1'' ''payment_intent.succeeded'', Some (Inr True)),
      (200, Ack True False ''evt_1'' ''payment_intent.succeeded'', None),
      (200, Ack True False ''evt_1'' ''payment_intent.succeeded'', None)]
   \<and> length (filter (\<lambda>out. handler_called (snd out))
        (fst (serve_all example_secret (accept_event evt_payment) new_gateway
          [post_delivery db_ok, post_delivery db_ok, post_delivery db_ok]))) = 1"
proof -
  let ?st1 = "\<lparr>processedEvents = {''evt_1''}, retryAttempts = [''evt_1'' \<mapsto> Suc 0],
                notifications = []\<rparr>"
  have id: "event_id evt_payment = ''evt_1''" "event_type evt_payment = ''payment_intent.succeeded''"
    "event_object evt_payment \<noteq> None"
    by (simp_all add: evt_payment_def)
  have again: "serve example_secret (accept_event evt_payment) ?st1
      (d_request (post_delivery db_ok)) (d_db (post_delivery db_ok))
   = (\<lparr>res_status = 200, res_body = Ack True False ''evt_1'' ''payment_intent.succeeded''\<rparr>, ?st1, None)"
    using serve_processed[OF delivers_post[of evt_payment db_ok], of ?st1] by (simp add: id)
  have outs: "fst (serve_all example_secret (accept_event evt_payment) new_gateway
        [post_delivery db_ok, post_delivery db_ok, post_delivery db_ok])
     = [(\<lparr>res_status = 200, res_body = Ack True True ''evt_1'' ''payment_intent.succeeded''\<rparr>, Some (Inr True)),
        (\<lparr>res_status = 200, res_body = Ack True False ''evt_1'' ''payment_intent.succeeded''\<rparr>, None),
        (\<lparr>res_status = 200, res_body = Ack True False ''evt_1'' ''payment_intent.succeeded''\<rparr>, None)]"
    by (simp add: serve_evt_payment_first again)
  have "\<forall>d \<in> set [post_delivery db_ok, post_delivery db_ok, post_delivery db_ok].
          \<exists>ev. delivers example_secret (accept_event evt_payment) d ev \<and> event_id ev = ''evt_1''
            \<and> event_object ev \<noteq> None"
    using delivers_post[of evt_payment db_ok] id by auto
  from serve_idempotent[OF this, of new_gateway]
  show ?thesis unfolding outs by simp
qed

lemma serve_non_200:
  assumes n: "res_status (fst (serve sec ce st req db)) \<noteq> 200"
  shows "(req_method req \<noteq> ''POST'' \<and> res_status (fst (serve sec ce st req db)) = 405)
     \<or> (req_method req = ''POST'' \<and>
          (\<exists>error. req_text req = Inl error
             \<and> fst (serve sec ce st req db) = createErrorResponse error ''stripe_webhook''))
     \<or> (req_method req = ''POST'' \<and> (req_signature req = None \<or> req_signature req = Some [])
          \<and> res_status (fst (serve sec ce st req db)) = 400)
     \<or> (req_method req = ''POST'' \<and> sec = [] \<and> res_status (fst (serve sec ce st req db)) = 500)
     \<or> (req_method req = ''POST'' \<and>
          (\<exists>body signature err. req_text req = Inr body \<and> req_signature req = Some signature
             \<and> ce body signature sec = Inl err)
          \<and> res_status (fst (serve sec ce st req db)) = 400)
     \<or> (\<exists>error. snd (snd (serve sec ce st req db)) = Some (Inl error)
          \<and> fst (serve sec ce st req db) = createErrorResponse error ''stripe_webhook'')"
proof (cases "req_method req = ''POST''")
  case False
  then show ?thesis using n by (simp add: serve_def split: if_splits)
next
  case post: True
  show ?thesis
  proof (cases "req_text req")
    case (Inl error)
    then have "fst (serve sec ce st req db) = createErrorResponse error ''stripe_webhook''"
      using post by (simp add: serve_def serve_catch_def Let_def)
    then show ?thesis using post Inl by simp
  next
    case (Inr body)
    show ?thesis
    proof (cases "req_signature req = None \<or> req_signature req = Some []")
      case True
      then have "res_status (fst (serve sec ce st req db)) = 400"
        using post Inr by (simp add: serve_def)
      then show ?thesis using post True by simp
    next
      case sig: False
      then obtain signature where s: "req_signature req = Some signature" "signature \<noteq> []"
        by (cases "req_signature req") auto
      show ?thesis
      proof (cases "sec = []")
        case True
        then have "res_status (fst (serve sec ce st req db)) = 500"
          using post Inr s by (simp add: serve_def)
        then show ?thesis using post True by simp
      next
        case secret: False
        show ?thesis
        proof (cases "ce body signature sec")
          case (Inl err)
          then have "res_status (fst (serve sec ce st req db)) = 400"
            using post Inr s secret by (simp add: serve_def)
          then show ?thesis using post Inr s Inl by blast
        next
          case ev: (Inr event)
          define d where "d = \<lparr>d_request = req, d_db = db\<rparr>"
          have del: "delivers sec ce d event"
            using post Inr s secret ev by (simp add: delivers_def d_def)
          have dd: "d_request d = req" "d_db d = db" by (simp_all add: d_def)
          have "handler_threw (snd (snd (serve sec ce st req db)))"
            using serve_not_threw[OF del, of st] n unfolding dd by blast
          then obtain error where e: "snd (snd (serve sec ce st req db)) = Some (Inl error)"
            by (cases "snd (snd (serve sec ce st req db))" rule: handler_threw.cases) auto
          have fresh: "event_id event \<notin> processedEvents st"
            using serve_processed[OF del, of st] e unfolding dd by auto
          obtain nts where "dispatch event db = Some (Inl error, nts)"
            using serve_run[OF del fresh] e unfolding dd
            by (cases event db rule: dispatch_cases) auto
          then have "fst (serve sec ce st req db) = createErrorResponse error ''stripe_webhook''"
            using serve_fresh(3)[OF del fresh, of error nts] unfolding dd by simp
          then show ?thesis using e by blast
        qed
      qed
    qed
  qed
qed

lemma serve_threw:
  assumes del: "delivers sec ce d ev"
    and e: "snd (snd (serve sec ce st (d_request d) (d_db d))) = Some (Inl error)"
  shows "fst (serve sec ce st (d_request d) (d_db d)) = createErrorResponse error ''stripe_webhook''"
proof -
  have fresh: "event_id ev \<notin> processedEvents st"
    using serve_processed[OF del, of st] e by auto
  obtain nts where "dispatch ev (d_db d) = Some (Inl error, nts)"
    using serve_run[OF del fresh] e
    by (cases ev "d_db d" rule: dispatch_cases) auto
  then show ?thesis
    using serve_fresh(3)[OF del fresh, of error nts] by simp
qed

lemma createErrorResponse_status:
  "res_status (createErrorResponse error opn) \<in> {400, 401, 402, 429, 500, 502, 503}"
  by (cases "classifyError error") (simp_all add: createErrorResponse_def Let_def)

text \<open>
  C3, as amended. \<^verbatim>\<open>OPTIONS\<close> is answered 200 with the body \<^verbatim>\<open>ok\<close>, and any other method
  than POST is answered 405. For a POST: when reading the body throws, the answer is the
  response of \<^verbatim>\<open>createErrorResponse\<close> for that error; a missing or empty signature header
  is answered 400; with a signature header, an unconfigured webhook secret is answered
  500; a signature that is not accepted under the configured secret is answered 400. A
  POST whose body can be read, with a signature accepted under a configured secret, is
  answered HTTP 200 with body \<open>{received: true, processed, eventId, eventType}\<close> whenever
  no exception escapes the handler, which is the case for every event whose object is
  not \<^verbatim>\<open>null\<close>, whatever the database calls do; and when an exception escapes the
  handler, the answer is the response of \<^verbatim>\<open>createErrorResponse\<close> for it. The status of a
  response of \<^verbatim>\<open>createErrorResponse\<close> is one of 400, 401, 402, 429, 500, 502, 503; every
  status is one of these, 200 or 405; and a response other than 200 arises in one of
  the ways above.
\<close>

theorem serve_responses:
  "(req_method req = ''OPTIONS''
      \<longrightarrow> serve sec ce st req db = (\<lparr>res_status = 200, res_body = Text ''ok''\<rparr>, st, None))
   \<and> (req_method req \<noteq> ''OPTIONS'' \<and> req_method req \<noteq> ''POST''
      \<longrightarrow> serve sec ce st req db
            = (\<lparr>res_status = 405, res_body = ErrorJson ''Method not allowed'' None\<rparr>, st, None))
   \<and> (req_method req = ''POST'' \<and> req_text req = Inl error
      \<longrightarrow> fst (serve sec ce st req db) = createErrorResponse error ''stripe_webhook''
        \<and> snd (snd (serve sec ce st req db)) = None)
   \<and> (req_method req = ''POST'' \<and> req_text req = Inr body
        \<and> (req_signature req = None \<or> req_signature req = Some [])
      \<longrightarrow> serve sec ce st req db
            = (\<lparr>res_status = 400,
                res_body = ErrorJson ''Missing signature''
                  (Some ''Stripe-Signature header is required'')\<rparr>, st, None))
   \<and> (req_method req = ''POST'' \<and> req_text req = Inr body
        \<and> req_signature req = Some signature \<and> signature \<noteq> [] \<and> sec = []
      \<longrightarrow> serve sec ce st req db
            = (\<lparr>res_status = 500,
                res_body = ErrorJson ''Webhook not configured''
                  (Some ''STRIPE_WEBHOOK_SECRET environment variable is not set'')\<rparr>, st, None))
   \<and> (req_method req = ''POST'' \<and> req_text req = Inr body
        \<and> req_signature req = Some signature \<and> signature \<noteq> [] \<and> sec \<noteq> []
        \<and> ce body signature sec = Inl err
      \<longrightarrow> serve sec ce st req db
            = (\<lparr>res_status = 400,
                res_body = ErrorJson ''Invalid signature''
                  (Some ''Webhook signature verification failed'')\<rparr>, st, None))
   \<and> (delivers sec ce d ev \<and> \<not> handler_threw (snd (snd (serve sec ce st (d_request d) (d_db d))))
      \<longrightarrow> res_status (fst (serve sec ce st (d_request d) (d_db d))) = 200
         \<and> (\<exists>processed. res_body (fst (serve sec ce st (d_request d) (d_db d)))
                = Ack True processed (event_id ev) (event_type ev)))
   \<and> (delivers sec ce d ev \<and> event_object ev \<noteq> None
      \<longrightarrow> \<not> handler_threw (snd (snd (serve sec ce st (d_request d) (d_db d)))))
   \<and> (delivers sec ce d ev
        \<and> snd (snd (serve sec ce st (d_request d) (d_db d))) = Some (Inl error)
      \<longrightarrow> fst (serve sec ce st (d_request d) (d_db d))
            = createErrorResponse error ''stripe_webhook'')
   \<and> res_status (createErrorResponse error opn) \<in> {400, 401, 402, 429, 500, 502, 503}
   \<and> res_status (fst (serve sec ce st req db)) \<in> {200, 400, 401, 402, 405, 429, 500, 502, 503}
   \<and> (res_status (fst (serve sec ce st req db)) \<noteq> 200 \<longrightarrow>
        (req_method req \<noteq> ''POST'' \<and> res_status (fst (serve sec ce st req db)) = 405)
      \<or> (req_method req = ''POST'' \<and>
           (\<exists>error. req_text req = Inl error
              \<and> fst (serve sec ce st req db) = createErrorResponse error ''stripe_webhook''))
      \<or> (req_method req = ''POST'' \<and> (req_signature req = None \<or> req_signature req = Some [])
           \<and> res_status (fst (serve sec ce st req db)) = 400)
      \<or> (req_method req = ''POST'' \<and> sec = [] \<and> res_status (fst (serve sec ce st req db)) = 500)
      \<or> (req_method req = ''POST'' \<and>
           (\<exists>body signature err. req_text req = Inr body \<and> req_signature req = Some signature
              \<and> ce body signature sec = Inl err)
           \<and> res_status (fst (serve sec ce st req db)) = 400)
      \<or> (\<exists>error. snd (snd (serve sec ce st req db)) = Some (Inl error)
           \<and> fst (serve sec ce st req db) = createErrorResponse error ''stripe_webhook''))"
proof -
  have c1: "serve sec ce st req db = (\<lparr>res_status = 200, res_body = Text ''ok''\<rparr>, st, None)"
    if "req_method req = ''OPTIONS''"
    using that by (simp add: serve_def)
  have c2: "serve sec ce st req db
            = (\<lparr>res_status = 405, res_body = ErrorJson ''Method not allowed'' None\<rparr>, st, None)"
    if "req_method req \<noteq> ''OPTIONS'' \<and> req_method req \<noteq> ''POST''"
    using that by (simp add: serve_def)
  have c3: "fst (serve sec ce st req db) = createErrorResponse error ''stripe_webhook''
        \<and> snd (snd (serve sec ce st req db)) = None"
    if "req_method req = ''POST'' \<and> req_text req = Inl error"
    using that by (simp add: serve_def serve_catch_def Let_def)
  have c4: "serve sec ce st req db
            = (\<lparr>res_status = 400,
                res_body = ErrorJson ''Missing signature''
                  (Some ''Stripe-Signature header is required'')\<rparr>, st, None)"
    if "req_method req = ''POST'' \<and> req_text req = Inr body
        \<and> (req_signature req = None \<or> req_signature req = Some [])"
    using that by (auto simp add: serve_def)
  have c5: "serve sec ce st req db
            = (\<lparr>res_status = 500,
                res_body = ErrorJson ''Webhook not configured''
                  (Some ''STRIPE_WEBHOOK_SECRET environment variable is not set'')\<rparr>, st, None)"
    if "req_method req = ''POST'' \<and> req_text req = Inr body
        \<and> req_signature req = Some signature \<and> signature \<noteq> [] \<and> sec = []"
    using that by (simp add: serve_def)
  have c6: "serve sec ce st req db
            = (\<lparr>res_status = 400,
                res_body = ErrorJson ''Invalid signature''
                  (Some ''Webhook signature verification failed'')\<rparr>, st, None)"
    if "req_method req = ''POST'' \<and> req_text req = Inr body
        \<and> req_signature req = Some signature \<and> signature \<noteq> [] \<and> sec \<noteq> []
        \<and> ce body signature sec = Inl err"
    using that by (simp add: serve_def)
  have c7: "res_status (fst (serve sec ce st (d_request d) (d_db d))) = 200
         \<and> (\<exists>processed. res_body (fst (serve sec ce st (d_request d) (d_db d)))
                = Ack True processed (event_id ev) (event_type ev))"
    if "delivers sec ce d ev \<and> \<not> handler_threw (snd (snd (serve sec ce st (d_request d) (d_db d))))"
    using serve_not_threw[of sec ce d ev st] that by (elim conjE)
  have c8: "\<not> handler_threw (snd (snd (serve sec ce st (d_request d) (d_db d))))"
    if "delivers sec ce d ev \<and> event_object ev \<noteq> None"
    using serve_object_not_threw[of sec ce d ev st] that by (elim conjE)
  have c9: "fst (serve sec ce st (d_request d) (d_db d))
            = createErrorResponse error ''stripe_webhook''"
    if "delivers sec ce d ev
        \<and> snd (snd (serve sec ce st (d_request d) (d_db d))) = Some (Inl error)"
    using serve_threw[of sec ce d ev st error] that by (elim conjE)
  note c10 = createErrorResponse_status[of error opn]
  note c11 = serve_status_range[of sec ce st req db]
  note c12 = serve_non_200[of sec ce st req db]
  show ?thesis
    apply (intro conjI impI)
    subgoal by (rule c1)
    subgoal by (rule c2)
    subgoal using c3 by (elim conjE) simp
    subgoal using c3 by (elim conjE) simp
    subgoal by (rule c4)
    subgoal by (rule c5)
    subgoal by (rule c6)
    subgoal using c7 by (elim conjE) simp
    subgoal using c7 by (elim conjE) simp
    subgoal using c8 by (elim conjE) simp
    subgoal by (rule c9)
    subgoal by (rule c10)
    subgoal by (rule c11)
    subgoal by (rule c12)
    done
qed

theorem serve_responses_witness:
  "fst (serve example_secret (accept_event evt_checkout) new_gateway
       (d_request (post_delivery db_down)) (d_db (post_delivery db_down)))
     = \<lparr>res_status = 200, res_body = Ack True False ''evt_3'' ''checkout.session.completed''\<rparr>
   \<and> fst (serve example_secret (accept_event evt_checkout) new_gateway
       (d_request (post_delivery db_ok)) (d_db (post_delivery db_ok)))
     = \<lparr>res_status = 200, res_body = Ack True True ''evt_3'' ''checkout.session.completed''\<rparr>
   \<and> fst (serve example_secret (accept_event evt_checkout) new_gateway
       \<lparr>req_method = ''OPTIONS'', req_text = Inr [], req_signature = None\<rparr> db_ok)
     = \<lparr>res_status = 200, res_body = Text ''ok''\<rparr>
   \<and> fst (serve example_secret (accept_event evt_checkout) new_gateway
       \<lparr>req_method = ''GET'', req_text = Inr [], req_signature = None\<rparr> db_ok)
     = \<lparr>res_status = 405, res_body = ErrorJson ''Method not allowed'' None\<rparr>
   \<and> fst (serve example_secret (accept_event evt_checkout) new_gateway
       \<lparr>req_method = ''POST'', req_text = Inr ''{}'', req_signature = None\<rparr> db_ok)
     = \<lparr>res_status = 400,
        res_body = ErrorJson ''Missing signature'' (Some ''Stripe-Signature header is required'')\<rparr>
   \<and> fst (serve example_secret (accept_event evt_checkout) new_gateway
       \<lparr>req_method = ''POST'', req_text = Inr ''{}'', req_signature = Some ''t=1,v1=forged''\<rparr> db_ok)
     = \<lparr>res_status = 400,
        res_body = ErrorJson ''Invalid signature''
          (Some ''Webhook signature verification failed'')\<rparr>
   \<and> \<not> handler_threw (snd (snd (serve example_secret (accept_event evt_checkout) new_gateway
       (d_request (post_delivery db_down)) (d_db (post_delivery db_down)))))"
proof -
  have obj: "event_object evt_checkout \<noteq> None" by (simp add: evt_checkout_def)
  have down: "fst (serve example_secret (accept_event evt_checkout) new_gateway
       (d_request (post_delivery db_down)) (d_db (post_delivery db_down)))
     = \<lparr>res_status = 200, res_body = Ack True False ''evt_3'' ''checkout.session.completed''\<rparr>"
    by (simp add: serve_def post_delivery_def accept_event_def example_secret_def new_gateway_def
      evt_checkout_def dispatch_def handleCheckoutSessionCompleted_def db_ok_def db_down_def Let_def)
  have ok: "fst (serve example_secret (accept_event evt_checkout) new_gateway
       (d_request (post_delivery db_ok)) (d_db (post_delivery db_ok)))
     = \<lparr>res_status = 200, res_body = Ack True True ''evt_3'' ''checkout.session.completed''\<rparr>"
    by (simp add: serve_def post_delivery_def accept_event_def example_secret_def new_gateway_def
      evt_checkout_def dispatch_def handleCheckoutSessionCompleted_def db_ok_def Let_def)
  have options: "fst (serve example_secret (accept_event evt_checkout) new_gateway
       \<lparr>req_method = ''OPTIONS'', req_text = Inr [], req_signature = None\<rparr> db_ok)
     = \<lparr>res_status = 200, res_body = Text ''ok''\<rparr>"
    using serve_responses[where req="\<lparr>req_method = ''OPTIONS'', req_text = Inr [],
        req_signature = None\<rparr>" and sec=example_secret and ce="accept_event evt_checkout"
        and st=new_gateway and db=db_ok]
    by simp
  have get: "fst (serve example_secret (accept_event evt_checkout) new_gateway
       \<lparr>req_method = ''GET'', req_text = Inr [], req_signature = None\<rparr> db_ok)
     = \<lparr>res_status = 405, res_body = ErrorJson ''Method not allowed'' None\<rparr>"
    using serve_responses[where req="\<lparr>req_method = ''GET'', req_text = Inr [],
        req_signature = None\<rparr>" and sec=example_secret and ce="accept_event evt_checkout"
        and st=new_gateway and db=db_ok]
    by simp
  have missing: "fst (serve example_secret (accept_event evt_checkout) new_gateway
       \<lparr>req_method = ''POST'', req_text = Inr ''{}'', req_signature = None\<rparr> db_ok)
     = \<lparr>res_status = 400,
        res_body = ErrorJson ''Missing signature'' (Some ''Stripe-Signature header is required'')\<rparr>"
    using serve_responses[where req="\<lparr>req_method = ''POST'', req_text = Inr ''{}'',
        req_signature = None\<rparr>" and sec=example_secret and ce="accept_event evt_checkout"
        and st=new_gateway and db=db_ok and body="''{}''"]
    by simp
  have forged: "fst (serve example_secret (accept_event evt_checkout) new_gateway
       \<lparr>req_method = ''POST'', req_text = Inr ''{}'', req_signature = Some ''t=1,v1=forged''\<rparr> db_ok)
     = \<lparr>res_status = 400,
        res_body = ErrorJson ''Invalid signature''
          (Some ''Webhook signature verification failed'')\<rparr>"
    using serve_responses[where req="\<lparr>req_method = ''POST'', req_text = Inr ''{}'',
        req_signature = Some ''t=1,v1=forged''\<rparr>" and sec=example_secret
        and ce="accept_event evt_checkout" and st=new_gateway and db=db_ok and body="''{}''"
        and signature="''t=1,v1=forged''"
        and err="Error ''No signatures found matching the expected signature for payload''"]
    by (simp add: accept_event_def example_secret_def)
  have caught: "\<not> handler_threw (snd (snd (serve example_secret (accept_event evt_checkout)
       new_gateway (d_request (post_delivery db_down)) (d_db (post_delivery db_down)))))"
    using serve_responses[where sec=example_secret and ce="accept_event evt_checkout"
        and d="post_delivery db_down" and ev=evt_checkout and st=new_gateway]
      delivers_post[of evt_checkout db_down] obj
    by simp
  from down ok options get missing forged caught show ?thesis by (intro conjI)
qed

text \<open>
  C3 as stated fails: a signed POST is answered 500 when the webhook secret is not
  configured, and a POST whose body cannot be read is answered 500 by
  \<^verbatim>\<open>createErrorResponse\<close>; neither is a 400 for the signature or a 405 for the method.
\<close>

theorem signed_post_not_200_counterexample:
  "fst (serve [] (accept_event evt_payment) new_gateway
       (d_request (post_delivery db_ok)) (d_db (post_delivery db_ok)))
     = \<lparr>res_status = 500,
        res_body = ErrorJson ''Webhook not configured''
          (Some ''STRIPE_WEBHOOK_SECRET environment variable is not set'')\<rparr>
   \<and> fst (serve example_secret (accept_event evt_payment) new_gateway
       \<lparr>req_method = ''POST'', req_text = Inl (Error ''request body stream closed''),
        req_signature = Some ''t=1,v1=abc''\<rparr> db_ok)
     = \<lparr>res_status = 500,
        res_body = ErrorResponse ''Internal server error'' UNKNOWN ''stripe_webhook''\<rparr>"
  by (simp add: serve_def post_delivery_def serve_catch_def createErrorResponse_def Let_def)

end
